theory Spec2Isabelle
  imports Complex_Main "HOL-Library.Multiset"
begin

text \<open>
  A model of the three estimators of the pricing module: the probability that an offer at
  a proposed markup succeeds, the reliability of that estimate, and a suggested markup.
  Each method is a function of its arguments and of the store; a method that awaits a
  query returns the exception of the query or its own result. A method whose name starts
  with an underscore is named without it (\<open>calculateSuccessProbability_internal\<close> for
  \<open>_calculateSuccessProbability\<close>, whose public namesake exists too). The lines that the
  methods write to the console are not modelled.
\<close>

section \<open>JavaScript numbers\<close>

text \<open>
  A JavaScript number is a real, one of the two infinities, or NaN; the finite numbers
  that the code holds are the binary64 ones. Two families of operations follow IEEE 754
  on these four kinds of value (what is NaN, what is infinite, which comparison is
  false). The operations \<open>fl_add\<close>, \<open>fl_sub\<close>, \<open>fl_mul\<close> and \<open>fl_div\<close> round
  their result to the nearest binary64 number, ties to even, as the code does; a decimal
  literal \<open>c\<close> of the source is the number \<open>b64 c\<close>. The operations \<open>js_add\<close>,
  \<open>js_sub\<close>, \<open>js_mul\<close> and \<open>js_div\<close> are exact. The exact ones are used in three
  places only: for the sum, the mean and the margin of the weighted markup and for the
  ages of the data recency, whose results are continuous quantities that differ from
  the binary64 ones by rounding error; for the comparator of the sort, because the sign
  of a binary64 difference is the sign of the exact difference; and in the formulas
  written after the specification. The sign of zero is not modelled, so a quotient by
  zero is taken at \<open>+0\<close>.
\<close>

datatype jsnum = Num real | PosInf | NegInf | NaN

fun isNaN :: "jsnum \<Rightarrow> bool" where
  "isNaN NaN = True"
| "isNaN _ = False"

text \<open>Truthiness of a number, as \<open>x || d\<close> tests it: \<open>0\<close> and NaN are falsy.\<close>

fun truthy :: "jsnum \<Rightarrow> bool" where
  "truthy NaN = False"
| "truthy (Num a) = (a \<noteq> 0)"
| "truthy _ = True"

fun js_neg :: "jsnum \<Rightarrow> jsnum" where
  "js_neg (Num a) = Num (- a)"
| "js_neg PosInf = NegInf"
| "js_neg NegInf = PosInf"
| "js_neg NaN = NaN"

fun js_add :: "jsnum \<Rightarrow> jsnum \<Rightarrow> jsnum" where
  "js_add (Num a) (Num b) = Num (a + b)"
| "js_add NaN _ = NaN"
| "js_add _ NaN = NaN"
| "js_add PosInf NegInf = NaN"
| "js_add NegInf PosInf = NaN"
| "js_add PosInf _ = PosInf"
| "js_add _ PosInf = PosInf"
| "js_add NegInf _ = NegInf"
| "js_add _ NegInf = NegInf"

definition js_sub :: "jsnum \<Rightarrow> jsnum \<Rightarrow> jsnum" where
  "js_sub x y = js_add x (js_neg y)"

text \<open>The sign of a non-NaN number, and the infinity (or NaN, for \<open>0\<close>) of a given sign.\<close>

fun sign_of :: "jsnum \<Rightarrow> real" where
  "sign_of (Num a) = sgn a"
| "sign_of PosInf = 1"
| "sign_of NegInf = - 1"
| "sign_of NaN = 0"

definition inf_of_sign :: "real \<Rightarrow> jsnum" where
  "inf_of_sign s = (if s > 0 then PosInf else if s < 0 then NegInf else NaN)"

fun js_mul :: "jsnum \<Rightarrow> jsnum \<Rightarrow> jsnum" where
  "js_mul (Num a) (Num b) = Num (a * b)"
| "js_mul NaN _ = NaN"
| "js_mul _ NaN = NaN"
| "js_mul x y = inf_of_sign (sign_of x * sign_of y)"

fun js_div :: "jsnum \<Rightarrow> jsnum \<Rightarrow> jsnum" where
  "js_div (Num a) (Num b) = (if b = 0 then inf_of_sign (sgn a) else Num (a / b))"
| "js_div NaN _ = NaN"
| "js_div _ NaN = NaN"
| "js_div (Num a) _ = Num 0"
| "js_div PosInf (Num b) = (if b < 0 then NegInf else PosInf)"
| "js_div NegInf (Num b) = (if b < 0 then PosInf else NegInf)"
| "js_div _ _ = NaN"

fun js_lt :: "jsnum \<Rightarrow> jsnum \<Rightarrow> bool" where
  "js_lt (Num a) (Num b) = (a < b)"
| "js_lt NaN _ = False"
| "js_lt _ NaN = False"
| "js_lt _ NegInf = False"
| "js_lt PosInf _ = False"
| "js_lt _ _ = True"

definition js_gt :: "jsnum \<Rightarrow> jsnum \<Rightarrow> bool" where
  "js_gt x y = js_lt y x"

definition js_le :: "jsnum \<Rightarrow> jsnum \<Rightarrow> bool" where
  "js_le x y = (\<not> isNaN x \<and> \<not> isNaN y \<and> \<not> js_lt y x)"

definition Math_max :: "jsnum \<Rightarrow> jsnum \<Rightarrow> jsnum" where
  "Math_max x y = (if isNaN x \<or> isNaN y then NaN else if js_lt x y then y else x)"

definition Math_min :: "jsnum \<Rightarrow> jsnum \<Rightarrow> jsnum" where
  "Math_min x y = (if isNaN x \<or> isNaN y then NaN else if js_lt y x then y else x)"

fun Math_abs :: "jsnum \<Rightarrow> jsnum" where
  "Math_abs (Num a) = Num \<bar>a\<bar>"
| "Math_abs NaN = NaN"
| "Math_abs _ = PosInf"

text \<open>\<open>Math.round\<close> rounds to the nearest integer, a half upwards.\<close>

fun Math_round :: "jsnum \<Rightarrow> jsnum" where
  "Math_round (Num a) = Num (of_int \<lfloor>a + 1 / 2\<rfloor>)"
| "Math_round x = x"

fun Math_floor :: "jsnum \<Rightarrow> jsnum" where
  "Math_floor (Num a) = Num (of_int \<lfloor>a\<rfloor>)"
| "Math_floor x = x"

subsection \<open>Rounding to binary64\<close>

text \<open>Rounding of a real to the nearest integer, a tie to the even one.\<close>

definition rne :: "real \<Rightarrow> int" where
  "rne x =
     (let f = \<lfloor>x\<rfloor>; d = x - of_int f in
      if d < 1 / 2 then f else if 1 / 2 < d then f + 1 else if even f then f else f + 1)"

text \<open>
  The binary64 numbers are the multiples \<open>m * 2 ^ e\<close> with \<open>\<bar>m\<bar> < 2 ^ 53\<close> and
  \<open>- 1074 \<le> e \<le> 971\<close>. \<open>b64 x\<close> is the multiple nearest to \<open>x\<close> of the spacing
  \<open>2 ^ e\<close> of the binary64 numbers around \<open>x\<close>, where \<open>e\<close> is 52 below the binary
  exponent of \<open>x\<close> and not below \<open>- 1074\<close>; \<open>fl x\<close> is that number, or the
  infinity of its sign when it reaches \<open>2 ^ 1024\<close>.
\<close>

definition b64 :: "real \<Rightarrow> real" where
  "b64 x =
     (if x = 0 then 0
      else
        (let e = max (\<lfloor>log 2 \<bar>x\<bar>\<rfloor> - 52) (- 1074)
         in of_int (rne (x / 2 powr of_int e)) * 2 powr of_int e))"

definition fl :: "real \<Rightarrow> jsnum" where
  "fl x =
     (let y = b64 x in
      if 2 ^ 1024 \<le> y then PosInf else if y \<le> - (2 ^ 1024) then NegInf else Num y)"

fun fl_add :: "jsnum \<Rightarrow> jsnum \<Rightarrow> jsnum" where
  "fl_add (Num a) (Num b) = fl (a + b)"
| "fl_add x y = js_add x y"

definition fl_sub :: "jsnum \<Rightarrow> jsnum \<Rightarrow> jsnum" where
  "fl_sub x y = fl_add x (js_neg y)"

fun fl_mul :: "jsnum \<Rightarrow> jsnum \<Rightarrow> jsnum" where
  "fl_mul (Num a) (Num b) = fl (a * b)"
| "fl_mul x y = js_mul x y"

fun fl_div :: "jsnum \<Rightarrow> jsnum \<Rightarrow> jsnum" where
  "fl_div (Num a) (Num b) = (if b = 0 then inf_of_sign (sgn a) else fl (a / b))"
| "fl_div x y = js_div x y"

fun Math_sqrt :: "jsnum \<Rightarrow> jsnum" where
  "Math_sqrt (Num a) = (if a < 0 then NaN else fl (sqrt a))"
| "Math_sqrt PosInf = PosInf"
| "Math_sqrt _ = NaN"

text \<open>\<open>Math.pow(x, 2)\<close>: the square, infinite for both infinities, NaN for NaN.\<close>

definition Math_pow2 :: "jsnum \<Rightarrow> jsnum" where
  "Math_pow2 x = fl_mul x x"

text \<open>The binary64 number that a variable holds when an exact computation gives \<open>x\<close>.\<close>

fun toDouble :: "jsnum \<Rightarrow> jsnum" where
  "toDouble (Num a) = fl a"
| "toDouble x = x"

text \<open>
  \<open>Number(x.toFixed(1))\<close>: the decimal with one place that is nearest to \<open>x\<close>, a half
  away from zero, read back as the nearest binary64 number; NaN and the infinities print
  as their names and read back unchanged.
\<close>

fun toFixed1 :: "jsnum \<Rightarrow> jsnum" where
  "toFixed1 (Num a) = fl (sgn a * of_int \<lfloor>\<bar>a\<bar> * 10 + 1 / 2\<rfloor> / 10)"
| "toFixed1 x = x"

section \<open>Data model\<close>

text \<open>
  What the code observes of \<open>offer__encoding_date\<close>: the field is falsy (null, absent
  or the empty string), or it is a non-empty string from which \<open>new Date\<close> gets no
  time value, or one from which it gets the time value \<open>t\<close> (milliseconds since the
  epoch).
\<close>

datatype encoding_date = NoDate | BadDate | DateAt int

text \<open>
  A row of a query result, with the columns that the estimators read. A numeric column is
  \<open>None\<close> where the row has null or does not select the column.
\<close>

record HistoricalOffer =
  success :: "jsnum option"
  offer_answer__qty :: "jsnum option"
  markup :: "jsnum option"
  offer__encoding_date :: encoding_date

text \<open>An exception thrown by the store, with its message.\<close>

datatype error = Thrown string

text \<open>
  The store is an external collaborator: each query of the three modules is a function
  from its parameters to the rows it returns, or to the exception it throws. The prefix
  names the module whose method runs the query (\<open>PC\<close> for ProbabilityCalculator,
  \<open>RR\<close> for ReliabilityRepository, \<open>SM\<close> for SuggestedMarkupRepository).
\<close>

record db =
  PC_fetchCompleteProductCustomerHistory :: "string \<Rightarrow> string \<Rightarrow> error + HistoricalOffer list"
  PC_fetchCompleteProductHistory :: "string \<Rightarrow> error + HistoricalOffer list"
  PC_fetchCompleteCustomerHistory :: "string \<Rightarrow> error + HistoricalOffer list"
  RR_fetchCompleteProductCustomerHistory :: "string \<Rightarrow> string \<Rightarrow> error + HistoricalOffer list"
  RR_fetchCompleteProductHistory :: "string \<Rightarrow> error + HistoricalOffer list"
  RR_fetchCompleteCustomerHistory :: "string \<Rightarrow> error + HistoricalOffer list"
  SM_fetchProductCustomerHistorySuccess :: "string \<Rightarrow> string \<Rightarrow> error + HistoricalOffer list"
  SM_fetchGeneralProductHistorySuccess :: "string \<Rightarrow> error + HistoricalOffer list"
  SM_fetchGeneralCustomerHistorySuccess :: "string \<Rightarrow> error + HistoricalOffer list"
  SM_fetchCompleteCustomerHistory :: "string \<Rightarrow> error + HistoricalOffer list"

text \<open>
  The ambient values a call reads besides the store: the time value of \<open>new Date()\<close>
  and the number that \<open>Math.random()\<close> returns.
\<close>

record runtime =
  now :: int
  random :: real

section \<open>Shared helpers\<close>

text \<open>\<open>s.split('').reduce((sum, char) => sum + char.charCodeAt(0), 0)\<close>\<close>

definition charCodeSum :: "string \<Rightarrow> nat" where
  "charCodeSum s = foldl (\<lambda>sum char. sum + of_char char) 0 s"

text \<open>\<open>xs.filter(h => h.success === 1).length\<close>\<close>

definition successCount :: "HistoricalOffer list \<Rightarrow> nat" where
  "successCount xs = length (filter (\<lambda>h. success h = Some (Num 1)) xs)"

text \<open>The markups that are neither null nor NaN, in the order of the rows.\<close>

definition validMarkups :: "HistoricalOffer list \<Rightarrow> jsnum list" where
  "validMarkups history =
     List.map_filter (\<lambda>h. case markup h of
                             None \<Rightarrow> None
                           | Some m \<Rightarrow> if isNaN m then None else Some m) history"

section \<open>ProbabilityCalculator\<close>

definition SIMILAR_MARKUP_THRESHOLD :: real where
  "SIMILAR_MARKUP_THRESHOLD = 5"

text \<open>
  The filter of both similarity tests:
  \<open>h.markup !== null && !isNaN(h.markup) && Math.abs(h.markup - markup) <= threshold\<close>.
\<close>

definition similarMarkup :: "real \<Rightarrow> jsnum \<Rightarrow> HistoricalOffer \<Rightarrow> bool" where
  "similarMarkup threshold m h =
     (case markup h of
        None \<Rightarrow> False
      | Some hm \<Rightarrow> \<not> isNaN hm \<and> js_le (Math_abs (fl_sub hm m)) (Num threshold))"

text \<open>\<open>(successCount / offers.length) * 100\<close>, on a non-empty list.\<close>

definition successRate :: "HistoricalOffer list \<Rightarrow> jsnum" where
  "successRate xs =
     fl_mul (fl_div (Num (real (successCount xs))) (Num (real (length xs)))) (Num 100)"

text \<open>
  The markup tiers of the branch without any history: the amount added to the base
  probability by the \<open>if\<close>/\<open>else if\<close> chain, in the order of the source.
\<close>

definition noDataMarkupShift :: "jsnum \<Rightarrow> nat \<Rightarrow> int" where
  "noDataMarkupShift m productIdSum =
     (if js_gt m (Num 35) then - (15 + int (productIdSum mod 5))
      else if js_gt m (Num 25) then - (5 + int (productIdSum mod 5))
      else if js_lt m (Num 15) then 5 + int (productIdSum mod 5)
      else if js_lt m (Num 10) then 10 + int (productIdSum mod 5)
      else 0)"

text \<open>The markup tiers of the branch with fewer than three similar offers.\<close>

definition sparseMarkupShift :: "jsnum \<Rightarrow> int" where
  "sparseMarkupShift m =
     (if js_gt m (Num 35) then - 15
      else if js_gt m (Num 25) then - 5
      else if js_lt m (Num 15) then 5
      else if js_lt m (Num 10) then 10
      else 0)"

text \<open>
  The body of \<open>_calculateFallbackProbability\<close> after its two queries have returned.
\<close>

definition fallbackProbabilityOf ::
  "jsnum \<Rightarrow> string \<Rightarrow> string \<Rightarrow> HistoricalOffer list \<Rightarrow> HistoricalOffer list \<Rightarrow> jsnum" where
  "fallbackProbabilityOf m productId customerNr productHistory customerHistory =
     (let combinedHistory = productHistory @ customerHistory in
      if length combinedHistory = 0 then
        (let productIdSum = charCodeSum productId;
             baseVariation = int (productIdSum mod 25) - 12;
             baseProbability = 50 + baseVariation + noDataMarkupShift m productIdSum
         in Num (of_int (min 85 (max 15 baseProbability))))
      else
        (let similarMarkupOffers =
               filter (similarMarkup (SIMILAR_MARKUP_THRESHOLD * 2) m) combinedHistory in
         if length similarMarkupOffers < 3 then
           (let productIdSum = charCodeSum productId;
                customerIdSum = charCodeSum customerNr;
                baseVariation = int ((productIdSum + customerIdSum) mod 20) - 10;
                baseProbability = 50 + baseVariation + sparseMarkupShift m
            in if length combinedHistory > 0 then
                 fl_add (fl_mul (Num (of_int baseProbability)) (Num (b64 0.7)))
                        (fl_mul (successRate combinedHistory) (Num (b64 0.3)))
               else Num (of_int (min 85 (max 15 baseProbability))))
         else successRate similarMarkupOffers))"

definition calculateFallbackProbability ::
  "db \<Rightarrow> jsnum \<Rightarrow> string \<Rightarrow> string \<Rightarrow> error + jsnum" where
  "calculateFallbackProbability d m productId customerNr =
     (case PC_fetchCompleteProductHistory d productId of
        Inl e \<Rightarrow> Inl e
      | Inr productHistory \<Rightarrow>
          (case PC_fetchCompleteCustomerHistory d customerNr of
             Inl e \<Rightarrow> Inl e
           | Inr customerHistory \<Rightarrow>
               Inr (fallbackProbabilityOf m productId customerNr productHistory customerHistory)))"

text \<open>
  \<open>_calculateSuccessProbability\<close>. The parameters \<open>quantity\<close>, \<open>purchasePrice\<close> and
  \<open>rate\<close> are accepted and not read.
\<close>

definition calculateSuccessProbability_internal ::
  "db \<Rightarrow> jsnum \<Rightarrow> string \<Rightarrow> string \<Rightarrow> jsnum \<Rightarrow> jsnum \<Rightarrow> jsnum \<Rightarrow> error + jsnum" where
  "calculateSuccessProbability_internal d m productId customerNr quantity purchasePrice rate =
     (case PC_fetchCompleteProductCustomerHistory d customerNr productId of
        Inl e \<Rightarrow> Inl e
      | Inr history \<Rightarrow>
          if length history = 0 then calculateFallbackProbability d m productId customerNr
          else
            (let similarMarkupOffers = filter (similarMarkup SIMILAR_MARKUP_THRESHOLD m) history in
             if length similarMarkupOffers = 0 then
               calculateFallbackProbability d m productId customerNr
             else Inr (successRate similarMarkupOffers)))"

text \<open>
  The public entry point. \<open>getDb\<close> is the outcome of awaiting the handle: the store,
  or the exception thrown while obtaining it. There is no handler in this method.
\<close>

definition calculateSuccessProbability ::
  "error + db \<Rightarrow> string \<Rightarrow> string \<Rightarrow> jsnum \<Rightarrow> jsnum \<Rightarrow> jsnum \<Rightarrow> jsnum \<Rightarrow> error + jsnum" where
  "calculateSuccessProbability getDb customerNr productId m quantity purchasePrice rate =
     (case getDb of
        Inl e \<Rightarrow> Inl e
      | Inr d \<Rightarrow>
          calculateSuccessProbability_internal d m productId customerNr quantity purchasePrice rate)"

section \<open>ReliabilityRepository\<close>

record ReliabilityFactors =
  directHistory :: jsnum
  dataRecency :: jsnum
  dataConsistency :: jsnum
  fallbacksUsed :: jsnum

record ReliabilityResult =
  reliability :: jsnum
  reliabilityFactors :: ReliabilityFactors

definition MAX_DAYS_FOR_RECENT_DATA :: real where
  "MAX_DAYS_FOR_RECENT_DATA = 365"

text \<open>
  The \<open>forEach\<close> loop of \<open>_calculateDataRecency\<close>: the pair of \<open>totalAgeDays\<close> and
  \<open>count\<close> after one more offer, read at the time value \<open>t\<close> of \<open>now\<close>.
\<close>

definition addAge :: "int \<Rightarrow> real \<times> nat \<Rightarrow> HistoricalOffer \<Rightarrow> real \<times> nat" where
  "addAge t acc offer =
     (case offer__encoding_date offer of
        DateAt offerDate \<Rightarrow>
          (fst acc + of_int (t - offerDate) / (1000 * 60 * 60 * 24), snd acc + 1)
      | _ \<Rightarrow> acc)"

definition calculateDataRecency :: "runtime \<Rightarrow> HistoricalOffer list \<Rightarrow> jsnum" where
  "calculateDataRecency rt history =
     (if length history = 0 then Num 0
      else
        (let offersWithDates = filter (\<lambda>h. offer__encoding_date h \<noteq> NoDate) history in
         if length offersWithDates = 0 then Num 0
         else
           (let acc = foldl (addAge (now rt)) (0, 0) offersWithDates;
                totalAgeDays = fst acc;
                count = snd acc
            in if count = 0 then Num 50
               else
                 (let avgAgeDays = totalAgeDays / real count
                  in Num (max 0 (100 - avgAgeDays / MAX_DAYS_FOR_RECENT_DATA * 100))))))"

definition calculateDataConsistency :: "HistoricalOffer list \<Rightarrow> jsnum" where
  "calculateDataConsistency history =
     (if length history < 2 then Num 0
      else
        (let markups = validMarkups history in
         if length markups < 2 then Num 0
         else
           (let mean = fl_div (foldl fl_add (Num 0) markups) (Num (real (length markups)));
                variance =
                  fl_div (foldl (\<lambda>sum m. fl_add sum (Math_pow2 (fl_sub m mean))) (Num 0) markups)
                         (Num (real (length markups)));
                stdDev = Math_sqrt variance;
                coefficientOfVariation = fl_mul (fl_div stdDev (Math_abs mean)) (Num 100)
            in Math_max (Num 0) (fl_sub (Num 100) (fl_mul coefficientOfVariation (Num 2))))))"

text \<open>
  The four local variables \<open>directHistoryScore\<close>, \<open>dataRecencyScore\<close>,
  \<open>dataConsistencyScore\<close> and \<open>fallbacksUsed\<close> of \<open>calculateProductReliability\<close> as
  they stand when the branches on the available history are done, or the exception of the
  query that threw. The variable \<open>dataRecencyScore\<close> holds the binary64 number of the
  data recency.
\<close>

definition reliabilityScores ::
  "runtime \<Rightarrow> db \<Rightarrow> string \<Rightarrow> string \<Rightarrow> error + (jsnum \<times> jsnum \<times> jsnum \<times> jsnum)" where
  "reliabilityScores rt d customerNr productId =
     (case RR_fetchCompleteProductCustomerHistory d customerNr productId of
        Inl e \<Rightarrow> Inl e
      | Inr productCustomerHistory \<Rightarrow>
          if length productCustomerHistory = 0 then
            (case RR_fetchCompleteProductHistory d productId of
               Inl e \<Rightarrow> Inl e
             | Inr productHistory \<Rightarrow>
                 if length productHistory > 0 then
                   Inr (Num 0,
                        toDouble (calculateDataRecency rt productHistory),
                        calculateDataConsistency productHistory,
                        Num (of_int (max 40 (80 - int (length productHistory) * 3))))
                 else
                   (case RR_fetchCompleteCustomerHistory d customerNr of
                      Inl e \<Rightarrow> Inl e
                    | Inr customerHistory \<Rightarrow>
                        if length customerHistory > 0 then
                          Inr (Num 0,
                               fl_mul (toDouble (calculateDataRecency rt customerHistory))
                                      (Num (b64 0.5)),
                               fl_mul (calculateDataConsistency customerHistory) (Num (b64 0.3)),
                               fl_sub (Num 85)
                                 (Math_floor (fl_mul (Num (random rt)) (Num 10))))
                        else
                          (let productIdSum = charCodeSum productId
                           in Inr (Num (real (5 + productIdSum mod 15)),
                                   Num (real (10 + productIdSum mod 20)),
                                   Num (real (5 + productIdSum mod 20)),
                                   Num 100))))
          else
            Inr (Num (real (min 100 (length productCustomerHistory * 20))),
                 toDouble (calculateDataRecency rt productCustomerHistory),
                 calculateDataConsistency productCustomerHistory,
                 Num 0))"

text \<open>
  The weighting of the three scores and the record that is returned: each product and
  each sum is rounded to binary64, and \<open>Math.round\<close> reads the rounded sum.
\<close>

definition reliabilityResultOf :: "jsnum \<times> jsnum \<times> jsnum \<times> jsnum \<Rightarrow> ReliabilityResult" where
  "reliabilityResultOf scores =
     (case scores of
        (directHistoryScore, dataRecencyScore, dataConsistencyScore, fallbacksUsed') \<Rightarrow>
          \<lparr>reliability =
             Math_round
               (fl_add (fl_add (fl_mul directHistoryScore (Num (b64 0.7)))
                               (fl_mul dataRecencyScore (Num (b64 0.2))))
                       (fl_mul dataConsistencyScore (Num (b64 0.1)))),
           reliabilityFactors =
             \<lparr>directHistory = directHistoryScore,
              dataRecency = dataRecencyScore,
              dataConsistency = dataConsistencyScore,
              fallbacksUsed = fl_sub (Num 100) fallbacksUsed'\<rparr>\<rparr>)"

text \<open>The result of the \<open>catch\<close> block.\<close>

definition defaultReliability :: ReliabilityResult where
  "defaultReliability =
     \<lparr>reliability = Num 20,
      reliabilityFactors =
        \<lparr>directHistory = Num 20, dataRecency = Num 20,
         dataConsistency = Num 20, fallbacksUsed = Num 20\<rparr>\<rparr>"

text \<open>
  The public entry point: the handle is awaited before the \<open>try\<close>; an exception raised
  inside the \<open>try\<close> ends in the \<open>catch\<close> block.
\<close>

definition calculateProductReliability ::
  "runtime \<Rightarrow> error + db \<Rightarrow> string \<Rightarrow> string \<Rightarrow> error + ReliabilityResult" where
  "calculateProductReliability rt getDb customerNr productId =
     (case getDb of
        Inl e \<Rightarrow> Inl e
      | Inr d \<Rightarrow>
          (case reliabilityScores rt d customerNr productId of
             Inl e \<Rightarrow> Inr defaultReliability
           | Inr scores \<Rightarrow> Inr (reliabilityResultOf scores)))"

section \<open>SuggestedMarkupRepository\<close>

record MarkupFactors =
  baseMarkup :: jsnum
  clientHistory :: "jsnum option"
  competitiveAdjustment :: "jsnum option"
  volumeDiscount :: "jsnum option"
  urgencyFactor :: "jsnum option"

record MarkupResult =
  suggestedMarkup :: jsnum
  probability :: jsnum
  historyCount :: nat
  markupFactors :: MarkupFactors

definition DEFAULT_MARKUP :: real where
  "DEFAULT_MARKUP = 20"

definition MIN_MARKUP :: real where
  "MIN_MARKUP = 1"

definition MAX_MARKUP :: real where
  "MAX_MARKUP = 1000"

definition DEFAULT_AVG_QUANTITY :: real where
  "DEFAULT_AVG_QUANTITY = 10"

text \<open>\<open>x || d\<close> on a numeric column: \<open>d\<close> where the column is null, absent, \<open>0\<close> or NaN.\<close>

definition orElse :: "jsnum option \<Rightarrow> jsnum \<Rightarrow> jsnum" where
  "orElse x d = (case x of None \<Rightarrow> d | Some v \<Rightarrow> if truthy v then v else d)"

definition calculateClientHistoryAdjustment :: "db \<Rightarrow> string \<Rightarrow> error + jsnum" where
  "calculateClientHistoryAdjustment d customerNr =
     (case SM_fetchCompleteCustomerHistory d customerNr of
        Inl e \<Rightarrow> Inl e
      | Inr allHistory \<Rightarrow>
          if length allHistory = 0 then Inr (Num 0)
          else
            (let rate = fl_div (Num (real (successCount allHistory)))
                               (Num (real (length allHistory))) in
             if js_gt rate (Num (b64 0.7)) then
               Inr (Math_min (Num 5) (Math_round (fl_mul rate (Num 5))))
             else if js_lt rate (Num (b64 0.3)) \<and> length allHistory > 3 then Inr (Num (- 2))
             else Inr (Num 0)))"

definition calculateVolumeDiscount :: "jsnum \<Rightarrow> HistoricalOffer list \<Rightarrow> jsnum" where
  "calculateVolumeDiscount quantity history =
     (if length history = 0 then Num 0
      else
        (let avgQuantity =
               fl_div (foldl (\<lambda>sum h. fl_add sum (orElse (offer_answer__qty h) (Num 0)))
                             (Num 0) history)
                      (Num (real (length history)))
         in if js_gt quantity (fl_mul avgQuantity (Num 2)) then Num (- 5)
            else if js_gt quantity (fl_mul avgQuantity (Num (b64 1.5))) then Num (- 3)
            else if js_lt quantity (fl_mul avgQuantity (Num (b64 0.5))) then Num 2
            else Num 0))"

text \<open>
  \<open>.sort((a, b) => a - b)\<close>: an element goes behind the elements it compares greater
  than, that is, for which the comparator \<open>a - b\<close> is positive. The difference of two
  binary64 numbers is rounded to a number of the same sign, so the comparator is taken
  with the exact difference.
\<close>

fun insertSorted :: "jsnum \<Rightarrow> jsnum list \<Rightarrow> jsnum list" where
  "insertSorted x [] = [x]"
| "insertSorted x (y # ys) =
     (if js_gt (js_sub x y) (Num 0) then y # insertSorted x ys else x # y # ys)"

definition sortAscending :: "jsnum list \<Rightarrow> jsnum list" where
  "sortAscending xs = foldr insertSorted xs []"

definition computeWeightedMarkup :: "HistoricalOffer list \<Rightarrow> jsnum" where
  "computeWeightedMarkup history =
     (let validMarkups' = sortAscending (validMarkups history) in
      if length validMarkups' = 0 then Num DEFAULT_MARKUP
      else
        (let medianIndex = length validMarkups' div 2;
             medianMarkup = validMarkups' ! medianIndex;
             sum = foldl js_add (Num 0) validMarkups';
             averageMarkup = js_div sum (Num (real (length validMarkups')))
         in js_add (Math_max medianMarkup averageMarkup) (Num 2)))"

definition adjustForQuantity :: "jsnum \<Rightarrow> HistoricalOffer list \<Rightarrow> jsnum \<Rightarrow> jsnum" where
  "adjustForQuantity currentQty history baseMarkup' =
     (let avgHistoricalQty =
            (if length history > 0 then
               fl_div (foldl (\<lambda>sum h. fl_add sum (orElse (offer_answer__qty h) (Num 1)))
                             (Num 0) history)
                      (Num (real (length history)))
             else Num DEFAULT_AVG_QUANTITY);
          qtyRatio = fl_div currentQty avgHistoricalQty
      in if js_gt qtyRatio (Num 2) then fl_mul baseMarkup' (Num (b64 0.9))
         else if js_lt qtyRatio (Num (b64 0.5)) then fl_mul baseMarkup' (Num (b64 1.1))
         else baseMarkup')"

text \<open>
  \<open>parseInt\<close> without a radix: leading white space is skipped, then a sign, then the
  prefix \<open>0x\<close> or \<open>0X\<close> selects radix 16; the longest run of digits of the radix is
  read, and an empty run gives NaN.
\<close>

definition isWhiteSpace :: "char \<Rightarrow> bool" where
  "isWhiteSpace c = ((of_char c :: nat) \<in> {9, 10, 11, 12, 13, 32, 160})"

definition digitValue :: "char \<Rightarrow> nat option" where
  "digitValue c =
     (let n = (of_char c :: nat) in
      if 48 \<le> n \<and> n \<le> 57 then Some (n - 48)
      else if 97 \<le> n \<and> n \<le> 122 then Some (n - 87)
      else if 65 \<le> n \<and> n \<le> 90 then Some (n - 55)
      else None)"

definition isDigitOf :: "nat \<Rightarrow> char \<Rightarrow> bool" where
  "isDigitOf radix c = (case digitValue c of None \<Rightarrow> False | Some v \<Rightarrow> v < radix)"

definition digitsValue :: "nat \<Rightarrow> string \<Rightarrow> nat" where
  "digitsValue radix ds =
     foldl (\<lambda>acc c. acc * radix + (case digitValue c of None \<Rightarrow> 0 | Some v \<Rightarrow> v)) 0 ds"

definition parseInt :: "string \<Rightarrow> jsnum" where
  "parseInt s =
     (let s1 = dropWhile isWhiteSpace s;
          negative = (s1 \<noteq> [] \<and> hd s1 = CHR ''-'');
          s2 = (if s1 \<noteq> [] \<and> (hd s1 = CHR ''+'' \<or> hd s1 = CHR ''-'') then tl s1 else s1);
          hex = (length s2 \<ge> 2 \<and> hd s2 = CHR ''0''
                 \<and> (s2 ! 1 = CHR ''x'' \<or> s2 ! 1 = CHR ''X''));
          radix = (if hex then 16 else 10);
          s3 = (if hex then drop 2 s2 else s2);
          digits = takeWhile (isDigitOf radix) s3
      in if digits = [] then NaN
         else Num ((if negative then - 1 else 1) * real (digitsValue radix digits)))"

text \<open>\<open>s.slice(-2)\<close>: the last two characters, or all of a shorter string.\<close>

definition slice_last2 :: "string \<Rightarrow> string" where
  "slice_last2 s = drop (length s - 2) s"

definition combineFallbackHistories ::
  "HistoricalOffer list \<Rightarrow> HistoricalOffer list \<Rightarrow> jsnum \<Rightarrow> string \<Rightarrow> jsnum" where
  "combineFallbackHistories productHistory customerHistory currentQty productId =
     (let productMarkup =
            (if length productHistory > 0 then toDouble (computeWeightedMarkup productHistory)
             else Num DEFAULT_MARKUP);
          customerMarkup =
            (if length customerHistory > 0 then toDouble (computeWeightedMarkup customerHistory)
             else Num DEFAULT_MARKUP);
          weightProduct = (if length productHistory > 0 then Num (b64 0.7) else Num 0);
          weightCustomer = (if length customerHistory > 0 then Num (b64 0.3) else Num 0);
          totalWeight = fl_add weightProduct weightCustomer;
          baseMarkup' =
            (if js_gt totalWeight (Num 0) then
               fl_div (fl_add (fl_mul productMarkup weightProduct)
                              (fl_mul customerMarkup weightCustomer))
                      totalWeight
             else if productId \<noteq> [] then
               (let productIdSum = charCodeSum productId;
                    variation = int (productIdSum mod 20) - 7;
                    lastTwoDigits =
                      (let n = parseInt (slice_last2 productId)
                       in if truthy n then n else Num 0);
                    categoryAdjustment =
                      (if js_lt lastTwoDigits (Num 20) then - 3
                       else if js_gt lastTwoDigits (Num 80) then 5
                       else 0 :: int)
                in Num (max (MIN_MARKUP + 2)
                          (min (MAX_MARKUP - 5)
                             (DEFAULT_MARKUP + of_int variation + of_int categoryAdjustment))))
             else Num DEFAULT_MARKUP)
      in adjustForQuantity currentQty (productHistory @ customerHistory) baseMarkup')"

text \<open>The record returned at the end of the \<open>try\<close> block.\<close>

definition markupResultOf ::
  "jsnum \<Rightarrow> jsnum \<Rightarrow> nat \<Rightarrow> MarkupFactors \<Rightarrow> MarkupResult" where
  "markupResultOf markup' probability' historyCount' markupFactors' =
     (let finalMarkup = Math_max (Num MIN_MARKUP) (Math_min (Num MAX_MARKUP) markup')
      in \<lparr>suggestedMarkup = toFixed1 finalMarkup,
          probability = Math_round probability',
          historyCount = historyCount',
          markupFactors = markupFactors'\<rparr>)"

text \<open>
  The markup of the branch with direct history after the adjustment for the history of
  the client and the discount for volume. The variable \<open>markup\<close> holds the binary64
  number of the weighted markup.
\<close>

definition directMarkup :: "HistoricalOffer list \<Rightarrow> jsnum \<Rightarrow> jsnum \<Rightarrow> jsnum" where
  "directMarkup history clientAdjustment quantity =
     (let markup0 = toDouble (computeWeightedMarkup history);
          markup1 =
            (if clientAdjustment \<noteq> Num 0 then fl_add markup0 clientAdjustment else markup0);
          volumeDisc = calculateVolumeDiscount quantity history
      in if volumeDisc \<noteq> Num 0 then fl_add markup1 volumeDisc else markup1)"

text \<open>The discount for volume of the branch without direct history.\<close>

definition fallbackVolumeDiscount ::
  "HistoricalOffer list \<Rightarrow> HistoricalOffer list \<Rightarrow> jsnum \<Rightarrow> jsnum" where
  "fallbackVolumeDiscount generalProductHistory generalCustomerHistory quantity =
     (if length generalProductHistory + length generalCustomerHistory > 0 then
        calculateVolumeDiscount quantity (generalProductHistory @ generalCustomerHistory)
      else Num 0)"

text \<open>The markup of the branch without direct history after the discount for volume.\<close>

definition fallbackMarkup ::
  "HistoricalOffer list \<Rightarrow> HistoricalOffer list \<Rightarrow> jsnum \<Rightarrow> string \<Rightarrow> jsnum" where
  "fallbackMarkup generalProductHistory generalCustomerHistory quantity productId =
     (let markup0 =
            combineFallbackHistories
              generalProductHistory generalCustomerHistory quantity productId;
          volumeDisc =
            fallbackVolumeDiscount generalProductHistory generalCustomerHistory quantity
      in if volumeDisc \<noteq> Num 0 then fl_add markup0 volumeDisc else markup0)"

text \<open>The \<open>try\<close> block of \<open>calculateSuggestedMarkup\<close>.\<close>

definition suggestedMarkupBody ::
  "db \<Rightarrow> string \<Rightarrow> string \<Rightarrow> jsnum \<Rightarrow> jsnum \<Rightarrow> jsnum \<Rightarrow> error + MarkupResult" where
  "suggestedMarkupBody d customerNr productId quantity purchasePrice rate =
     (case SM_fetchProductCustomerHistorySuccess d customerNr productId of
        Inl e \<Rightarrow> Inl e
      | Inr history \<Rightarrow>
          if length history > 0 then
            (case calculateClientHistoryAdjustment d customerNr of
               Inl e \<Rightarrow> Inl e
             | Inr clientAdjustment \<Rightarrow>
                 (let volumeDisc = calculateVolumeDiscount quantity history;
                      markup' = directMarkup history clientAdjustment quantity;
                      markupFactors' =
                        \<lparr>baseMarkup = toDouble (computeWeightedMarkup history),
                         clientHistory =
                           (if clientAdjustment \<noteq> Num 0 then Some clientAdjustment else None),
                         competitiveAdjustment = None,
                         volumeDiscount = (if volumeDisc \<noteq> Num 0 then Some volumeDisc else None),
                         urgencyFactor = None\<rparr>
                  in case calculateSuccessProbability_internal
                            d markup' productId customerNr quantity purchasePrice rate of
                       Inl e \<Rightarrow> Inl e
                     | Inr probability' \<Rightarrow>
                         Inr (markupResultOf markup' probability' (length history) markupFactors')))
          else
            (case SM_fetchGeneralProductHistorySuccess d productId of
               Inl e \<Rightarrow> Inl e
             | Inr generalProductHistory \<Rightarrow>
                 (case SM_fetchGeneralCustomerHistorySuccess d customerNr of
                    Inl e \<Rightarrow> Inl e
                  | Inr generalCustomerHistory \<Rightarrow>
                      (let historyCount' =
                             length generalProductHistory + length generalCustomerHistory;
                           volumeDisc =
                             fallbackVolumeDiscount
                               generalProductHistory generalCustomerHistory quantity;
                           markup' =
                             fallbackMarkup
                               generalProductHistory generalCustomerHistory quantity productId;
                           markupFactors' =
                             \<lparr>baseMarkup =
                                combineFallbackHistories
                                  generalProductHistory generalCustomerHistory quantity productId,
                              clientHistory = None,
                              competitiveAdjustment = None,
                              volumeDiscount =
                                (if volumeDisc \<noteq> Num 0 then Some volumeDisc else None),
                              urgencyFactor = None\<rparr>
                       in case calculateFallbackProbability d markup' productId customerNr of
                            Inl e \<Rightarrow> Inl e
                          | Inr probability' \<Rightarrow>
                              Inr (markupResultOf markup' probability' historyCount'
                                     markupFactors')))))"

text \<open>The result of the \<open>catch\<close> block.\<close>

definition defaultMarkupResult :: MarkupResult where
  "defaultMarkupResult =
     \<lparr>suggestedMarkup = Num DEFAULT_MARKUP,
      probability = Num 50,
      historyCount = 0,
      markupFactors =
        \<lparr>baseMarkup = Num DEFAULT_MARKUP, clientHistory = None,
         competitiveAdjustment = None, volumeDiscount = None, urgencyFactor = None\<rparr>\<rparr>"

text \<open>
  The public entry point: as in the reliability module, the handle is awaited before the
  \<open>try\<close>, and an exception raised inside the \<open>try\<close> ends in the \<open>catch\<close> block.
\<close>

definition calculateSuggestedMarkup ::
  "error + db \<Rightarrow> string \<Rightarrow> string \<Rightarrow> jsnum \<Rightarrow> jsnum \<Rightarrow> jsnum \<Rightarrow> error + MarkupResult" where
  "calculateSuggestedMarkup getDb customerNr productId quantity purchasePrice rate =
     (case getDb of
        Inl e \<Rightarrow> Inl e
      | Inr d \<Rightarrow>
          (case suggestedMarkupBody d customerNr productId quantity purchasePrice rate of
             Inl e \<Rightarrow> Inr defaultMarkupResult
           | Inr r \<Rightarrow> Inr r))"

section \<open>Example stores\<close>

text \<open>A store in which every query succeeds and returns no row.\<close>

definition noStore :: db where
  "noStore =
     \<lparr>PC_fetchCompleteProductCustomerHistory = (\<lambda>c p. Inr []),
      PC_fetchCompleteProductHistory = (\<lambda>p. Inr []),
      PC_fetchCompleteCustomerHistory = (\<lambda>c. Inr []),
      RR_fetchCompleteProductCustomerHistory = (\<lambda>c p. Inr []),
      RR_fetchCompleteProductHistory = (\<lambda>p. Inr []),
      RR_fetchCompleteCustomerHistory = (\<lambda>c. Inr []),
      SM_fetchProductCustomerHistorySuccess = (\<lambda>c p. Inr []),
      SM_fetchGeneralProductHistorySuccess = (\<lambda>p. Inr []),
      SM_fetchGeneralCustomerHistorySuccess = (\<lambda>c. Inr []),
      SM_fetchCompleteCustomerHistory = (\<lambda>c. Inr [])\<rparr>"

text \<open>A row with success flag \<open>s\<close> and markup \<open>m\<close>, quantity 1 and no date.\<close>

definition offer :: "real \<Rightarrow> real \<Rightarrow> HistoricalOffer" where
  "offer s m =
     \<lparr>success = Some (Num s), offer_answer__qty = Some (Num 1),
      markup = Some (Num m), offer__encoding_date = NoDate\<rparr>"

text \<open>A row with markup \<open>m\<close> and the encoding date \<open>dt\<close>, not successful, quantity 1.\<close>

definition datedOffer :: "real \<Rightarrow> encoding_date \<Rightarrow> HistoricalOffer" where
  "datedOffer m dt =
     \<lparr>success = Some (Num 0), offer_answer__qty = Some (Num 1),
      markup = Some (Num m), offer__encoding_date = dt\<rparr>"

text \<open>
  The probability calculator finds five offers of the pair, four of them within 5 points
  of the markup 20 and three of these successful.
\<close>

definition similarPairStore :: db where
  "similarPairStore =
     noStore\<lparr>PC_fetchCompleteProductCustomerHistory :=
               (\<lambda>c p. Inr [offer 1 18, offer 1 20, offer 0 22, offer 1 25, offer 0 40])\<rparr>"

text \<open>
  The probability calculator finds no offer of the pair and one successful offer of the
  product, at markup 30.
\<close>

definition sparseStore :: db where
  "sparseStore = noStore\<lparr>PC_fetchCompleteProductHistory := (\<lambda>p. Inr [offer 1 30])\<rparr>"

text \<open>
  The sparse-data formula in the wording of the specification: the pseudo-score takes the
  tier shifts of the branch without history, whose \<open>sum % 5\<close> term is taken over
  the character sum \<open>tierSum\<close>.
\<close>

definition spec_sparseFallbackProbability ::
  "nat \<Rightarrow> jsnum \<Rightarrow> string \<Rightarrow> string \<Rightarrow> HistoricalOffer list \<Rightarrow> jsnum" where
  "spec_sparseFallbackProbability tierSum m productId customerNr combinedHistory =
     Num (0.7 * of_int (50 + (int ((charCodeSum productId + charCodeSum customerNr) mod 20) - 10)
                           + noDataMarkupShift m tierSum)
          + 0.3 * (real (successCount combinedHistory) / real (length combinedHistory) * 100))"

text \<open>
  The ages in days, at the time value \<open>t\<close>, of the rows whose encoding date has a time
  value, in the order of the rows.
\<close>

definition datedAges :: "int \<Rightarrow> HistoricalOffer list \<Rightarrow> real list" where
  "datedAges t history =
     List.map_filter (\<lambda>h. case offer__encoding_date h of
                             DateAt offerDate \<Rightarrow> Some (of_int (t - offerDate) / 86400000)
                           | _ \<Rightarrow> None) history"


text \<open>A call made at time value 0 that draws the random number 0.\<close>

definition atEpoch :: runtime where
  "atEpoch = \<lparr>now = 0, random = 0\<rparr>"

text \<open>The reliability module finds two offers of the pair, both at markup 0.\<close>

definition zeroMarkupStore :: db where
  "zeroMarkupStore =
     noStore\<lparr>RR_fetchCompleteProductCustomerHistory := (\<lambda>c p. Inr [offer 1 0, offer 0 0])\<rparr>"

text \<open>
  The reliability module finds five offers of the pair at markup 20, each dated 365 days
  after time value 0.
\<close>

definition futureStore :: db where
  "futureStore =
     noStore\<lparr>RR_fetchCompleteProductCustomerHistory :=
               (\<lambda>c p. Inr (replicate 5 (datedOffer 20 (DateAt 31536000000))))\<rparr>"

text \<open>The reliability module finds one offer of the customer and none of the product.\<close>

definition customerOnlyStore :: db where
  "customerOnlyStore = noStore\<lparr>RR_fetchCompleteCustomerHistory := (\<lambda>c. Inr [offer 1 20])\<rparr>"

text \<open>The reliability module finds one offer of the pair, dated at time value 0.\<close>

definition pairDatedStore :: db where
  "pairDatedStore =
     noStore\<lparr>RR_fetchCompleteProductCustomerHistory := (\<lambda>c p. Inr [datedOffer 20 (DateAt 0)])\<rparr>"

text \<open>Calls at time value 0 that draw 1/2 and 1/16, and a call 73 days later that draws 0.\<close>

definition drawHalf :: runtime where
  "drawHalf = \<lparr>now = 0, random = 1 / 2\<rparr>"

definition drawSmall :: runtime where
  "drawSmall = \<lparr>now = 0, random = 1 / 16\<rparr>"

definition day73 :: runtime where
  "day73 = \<lparr>now = 6307200000, random = 0\<rparr>"

text \<open>
  The probability calculator finds twenty offers of the pair at markup 20, eleven of them
  successful.
\<close>

definition twentyPairStore :: db where
  "twentyPairStore =
     noStore\<lparr>PC_fetchCompleteProductCustomerHistory :=
               (\<lambda>c p. Inr (replicate 11 (offer 1 20) @ replicate 9 (offer 0 20)))\<rparr>"

text \<open>
  The probability calculator finds two offers of the pair, at the markup 5 and at the
  binary64 number of 5.7, whose difference from the binary64 number of 0.7 exceeds 5 and
  is rounded to 5.
\<close>

definition roundedPairStore :: db where
  "roundedPairStore =
     noStore\<lparr>PC_fetchCompleteProductCustomerHistory :=
               (\<lambda>c p. Inr [offer 1 5, offer 0 (b64 5.7)])\<rparr>"

text \<open>
  A store without rows in which the query of the probability calculator for the history
  of the customer throws.
\<close>

definition customerFailStore :: db where
  "customerFailStore =
     noStore\<lparr>PC_fetchCompleteCustomerHistory := (\<lambda>c. Inl (Thrown ''SQLITE_BUSY''))\<rparr>"

text \<open>A store in which every query throws.\<close>

definition brokenStore :: db where
  "brokenStore =
     \<lparr>PC_fetchCompleteProductCustomerHistory = (\<lambda>c p. Inl (Thrown ''SQLITE_ERROR'')),
      PC_fetchCompleteProductHistory = (\<lambda>p. Inl (Thrown ''SQLITE_ERROR'')),
      PC_fetchCompleteCustomerHistory = (\<lambda>c. Inl (Thrown ''SQLITE_ERROR'')),
      RR_fetchCompleteProductCustomerHistory = (\<lambda>c p. Inl (Thrown ''SQLITE_ERROR'')),
      RR_fetchCompleteProductHistory = (\<lambda>p. Inl (Thrown ''SQLITE_ERROR'')),
      RR_fetchCompleteCustomerHistory = (\<lambda>c. Inl (Thrown ''SQLITE_ERROR'')),
      SM_fetchProductCustomerHistorySuccess = (\<lambda>c p. Inl (Thrown ''SQLITE_ERROR'')),
      SM_fetchGeneralProductHistorySuccess = (\<lambda>p. Inl (Thrown ''SQLITE_ERROR'')),
      SM_fetchGeneralCustomerHistorySuccess = (\<lambda>c. Inl (Thrown ''SQLITE_ERROR'')),
      SM_fetchCompleteCustomerHistory = (\<lambda>c. Inl (Thrown ''SQLITE_ERROR''))\<rparr>"


section \<open>Properties of the rounding\<close>

lemma rne_of_int: "rne (of_int m) = m"
  by (simp add: rne_def)

lemma rne_of_int_mult: "rne (of_int m * 2 ^ n) = m * 2 ^ n"
  using rne_of_int [of "m * 2 ^ n"] by simp

lemma rne_close: "\<bar>of_int (rne t) - t\<bar> \<le> 1 / 2"
proof -
  have "of_int \<lfloor>t\<rfloor> \<le> t" "t < of_int \<lfloor>t\<rfloor> + 1" by linarith+
  then show ?thesis
    unfolding rne_def Let_def by (simp add: abs_le_iff)
qed

lemma two_powr_neg_nat: "(2::real) powr (- real j) = 1 / 2 ^ j"
  by (simp add: powr_minus powr_realpow divide_inverse)

text \<open>
  A number whose binary exponent is \<open>52 - j\<close> is rounded to a multiple of \<open>2 ^ - j\<close>.
\<close>

lemma b64_normal:
  assumes j: "j \<le> 1074"
    and lo: "2 ^ 52 \<le> \<bar>x\<bar> * 2 ^ j"
    and hi: "\<bar>x\<bar> * 2 ^ j < 2 ^ 53"
  shows "b64 x = of_int (rne (x * 2 ^ j)) / 2 ^ j"
proof -
  have x0: "x \<noteq> 0" using lo by auto
  have pos: "0 < \<bar>x\<bar>" using x0 by simp
  have p1: "(2::real) powr of_int (52 - int j) = 2 ^ 52 / 2 ^ j"
    by (simp add: powr_diff powr_realpow flip: powr_realpow [of 2 52])
  have p2: "(2::real) powr of_int (52 - int j + 1) = 2 ^ 53 / 2 ^ j"
    by (simp add: powr_diff powr_add powr_realpow flip: powr_realpow [of 2 52])
  have "2 powr of_int (52 - int j) \<le> \<bar>x\<bar>"
    unfolding p1 using lo by (simp add: field_simps)
  moreover have "\<bar>x\<bar> < 2 powr of_int (52 - int j + 1)"
    unfolding p2 using hi by (simp add: field_simps)
  ultimately have k: "\<lfloor>log 2 \<bar>x\<bar>\<rfloor> = 52 - int j"
    using floor_log_eq_powr_iff [of "\<bar>x\<bar>" 2 "52 - int j"] pos by simp
  have e: "max (\<lfloor>log 2 \<bar>x\<bar>\<rfloor> - 52) (- 1074) = - int j"
    using k j by simp
  show ?thesis
    using x0 by (simp add: b64_def e two_powr_neg_nat Let_def)
qed

text \<open>The binary64 numbers are fixed points of the rounding.\<close>

lemma b64_dyadic:
  assumes m: "\<bar>m\<bar> < 2 ^ 53" and j: "j \<le> 1074"
  shows "b64 (of_int m / 2 ^ j) = of_int m / 2 ^ j"
proof (cases "m = 0")
  case True
  then show ?thesis by (simp add: b64_def)
next
  case False
  define x :: real where "x = of_int m / 2 ^ j"
  have x0: "x \<noteq> 0" using False by (simp add: x_def)
  have pos: "0 < \<bar>x\<bar>" using x0 by simp
  define k where "k = \<lfloor>log 2 \<bar>x\<bar>\<rfloor>"
  define e where "e = max (k - 52) (- 1074)"
  have "real_of_int \<bar>m\<bar> < real_of_int (2 ^ 53)" using m by (simp only: of_int_less_iff)
  then have "real_of_int \<bar>m\<bar> < 2 ^ 53" by simp
  then have "\<bar>x\<bar> < 2 ^ 53 / 2 ^ j"
    by (simp add: x_def divide_strict_right_mono)
  also have "\<dots> = 2 powr of_int (53 - int j)"
    by (simp add: powr_diff powr_realpow flip: powr_realpow [of 2 53])
  finally have up: "\<bar>x\<bar> < 2 powr of_int (53 - int j)" .
  have "2 powr of_int k \<le> \<bar>x\<bar>"
    using floor_log_eq_powr_iff [of "\<bar>x\<bar>" 2 k] pos by (simp add: k_def)
  with up have "(2::real) powr of_int k < 2 powr of_int (53 - int j)" by linarith
  then have "k < 53 - int j" by simp
  then have ej: "e \<le> - int j" using j by (simp add: e_def)
  define n where "n = nat (- int j - e)"
  have n: "int n = - int j - e" using ej by (simp add: n_def)
  have pe: "(2::real) powr of_int e = 1 / (2 ^ j * 2 ^ n)"
  proof -
    have "e = - int (j + n)" using n by simp
    then have "(2::real) powr of_int e = 2 powr (- real (j + n))" by simp
    also have "\<dots> = 1 / 2 ^ (j + n)" by (rule two_powr_neg_nat)
    finally show ?thesis by (simp add: power_add)
  qed
  have "b64 x = of_int (rne (x / 2 powr of_int e)) * 2 powr of_int e"
    using x0 by (simp add: b64_def Let_def e_def k_def)
  also have "\<dots> = x" by (simp add: pe x_def rne_of_int_mult)
  finally show ?thesis by (simp add: x_def)
qed

lemma b64_of_int: "\<bar>m\<bar> < 2 ^ 53 \<Longrightarrow> b64 (of_int m) = of_int m"
  using b64_dyadic [of m 0] by simp

lemma b64_zero [simp]: "b64 0 = 0"
  by (simp add: b64_def)

lemma b64_one [simp]: "b64 1 = 1"
  using b64_of_int [of 1] by simp

lemma b64_numeral [simp]:
  "(numeral w :: int) < 2 ^ 53 \<Longrightarrow> b64 (numeral w) = numeral w"
  using b64_of_int [of "numeral w"] by simp

lemma b64_neg_numeral [simp]:
  "(numeral w :: int) < 2 ^ 53 \<Longrightarrow> b64 (- numeral w) = - numeral w"
  using b64_of_int [of "- numeral w"] by simp

lemma b64_half [simp]: "b64 (1 / 2) = 1 / 2"
  using b64_dyadic [of 1 1] by simp

lemma fl_of_int: "\<bar>m\<bar> < 2 ^ 53 \<Longrightarrow> fl (of_int m) = Num (of_int m)"
proof -
  assume m: "\<bar>m\<bar> < 2 ^ 53"
  then have "real_of_int \<bar>m\<bar> < real_of_int (2 ^ 53)" by (simp only: of_int_less_iff)
  then have "\<bar>real_of_int m\<bar> < 2 ^ 53" by simp
  moreover have "(2::real) ^ 53 < 2 ^ 1024" by simp
  ultimately show ?thesis
    by (simp add: fl_def b64_of_int [OF m] Let_def abs_less_iff)
qed

lemma fl_zero [simp]: "fl 0 = Num 0"
  using fl_of_int [of 0] by simp

lemma fl_one [simp]: "fl 1 = Num 1"
  using fl_of_int [of 1] by simp

lemma fl_numeral [simp]:
  "(numeral w :: int) < 2 ^ 53 \<Longrightarrow> fl (numeral w) = Num (numeral w)"
  using fl_of_int [of "numeral w"] by simp

lemma fl_neg_numeral [simp]:
  "(numeral w :: int) < 2 ^ 53 \<Longrightarrow> fl (- numeral w) = Num (- numeral w)"
  using fl_of_int [of "- numeral w"] by simp

text \<open>
  The value of the rounding at a number whose binary exponent is \<open>52 - j\<close>, from the
  nearest integer \<open>m\<close> to its multiple of \<open>2 ^ j\<close>.
\<close>

lemma b64_val:
  assumes "j \<le> 1074" and "2 ^ 52 \<le> \<bar>x\<bar> * 2 ^ j" and "\<bar>x\<bar> * 2 ^ j < 2 ^ 53"
    and "rne (x * 2 ^ j) = m" and "y = of_int m / 2 ^ j"
  shows "b64 x = y"
  using b64_normal [OF assms(1-3)] assms(4,5) by simp

lemma fl_val:
  assumes "j \<le> 1074" and "2 ^ 52 \<le> \<bar>x\<bar> * 2 ^ j" and "\<bar>x\<bar> * 2 ^ j < 2 ^ 53"
    and "rne (x * 2 ^ j) = m" and "y = of_int m / 2 ^ j"
  shows "fl x = Num y"
proof -
  have b: "b64 x = y" by (rule b64_val [OF assms])
  have "\<bar>y\<bar> * 2 ^ j \<le> 2 ^ 53"
  proof -
    have "\<bar>x * 2 ^ j\<bar> < 2 ^ 53" using assms(3) by (simp add: abs_mult)
    then have "\<bar>real_of_int m\<bar> < 2 ^ 53 + 1"
      using rne_close [of "x * 2 ^ j"] assms(4) by linarith
    then have "real_of_int \<bar>m\<bar> < real_of_int (2 ^ 53 + 1)" by simp
    then have "\<bar>m\<bar> < 2 ^ 53 + 1" by (simp only: of_int_less_iff)
    then have "\<bar>m\<bar> \<le> 2 ^ 53" by simp
    then have "real_of_int \<bar>m\<bar> \<le> real_of_int (2 ^ 53)" by (simp only: of_int_le_iff)
    then have "\<bar>real_of_int m\<bar> \<le> 2 ^ 53" by simp
    then show ?thesis by (simp add: assms(5))
  qed
  moreover have "(1::real) \<le> 2 ^ j" by simp
  ultimately have "\<bar>y\<bar> * 1 \<le> \<bar>y\<bar> * 2 ^ j" and "\<bar>y\<bar> * 2 ^ j \<le> 2 ^ 53"
    by (simp_all only: mult_left_mono abs_ge_zero)
  then have "\<bar>y\<bar> \<le> 2 ^ 53" by linarith
  moreover have "(2::real) ^ 53 < 2 ^ 1024" by simp
  ultimately show ?thesis by (simp add: fl_def b Let_def abs_le_iff)
qed

text \<open>The rounding moves a number of magnitude at most \<open>2 ^ k\<close> by at most \<open>2 ^ k / 2 ^ 53\<close>.\<close>

lemma b64_error:
  assumes "\<bar>x\<bar> \<le> 2 ^ k"
  shows "\<bar>b64 x - x\<bar> \<le> 2 ^ k / 2 ^ 53"
proof (cases "x = 0")
  case True
  then show ?thesis by (simp add: b64_def)
next
  case False
  define e where "e = max (\<lfloor>log 2 \<bar>x\<bar>\<rfloor> - 52) (- 1074)"
  define p :: real where "p = 2 powr of_int e"
  have p0: "0 < p" by (simp add: p_def)
  have b: "b64 x = of_int (rne (x / p)) * p"
    using False by (simp add: b64_def e_def p_def Let_def)
  have "\<bar>x\<bar> \<le> 2 powr real k"
    using assms by (simp add: powr_realpow)
  then have "log 2 \<bar>x\<bar> \<le> real k"
    using False by (simp add: log_le_iff)
  then have "\<lfloor>log 2 \<bar>x\<bar>\<rfloor> \<le> int k" by (simp add: floor_le_iff)
  then have "e \<le> int k - 52" by (simp add: e_def)
  then have "of_int e \<le> (of_int (int k - 52) :: real)" by (simp only: of_int_le_iff)
  then have "p \<le> 2 powr of_int (int k - 52)"
    unfolding p_def by (simp only: powr_le_cancel_iff) 
  also have "\<dots> = 2 ^ k / 2 ^ 52"
    by (simp add: powr_diff powr_realpow flip: powr_realpow [of 2 52])
  finally have pk: "p \<le> 2 ^ k / 2 ^ 52" .
  define t where "t = x / p"
  have xt: "x = t * p" using p0 by (simp add: t_def)
  have "b64 x - x = (of_int (rne t) - t) * p"
    by (simp add: b xt [symmetric] t_def [symmetric] left_diff_distrib)
  then have "\<bar>b64 x - x\<bar> = \<bar>of_int (rne t) - t\<bar> * p"
    using p0 by (simp add: abs_mult)
  also have "\<dots> \<le> 1 / 2 * p"
    by (rule mult_right_mono [OF rne_close]) (use p0 in simp)
  also have "\<dots> \<le> 1 / 2 * (2 ^ k / 2 ^ 52)"
    using pk by simp
  finally show ?thesis by simp
qed

lemma fl_error:
  assumes "\<bar>x\<bar> \<le> 2 ^ k" and "k \<le> 1023"
  shows "fl x = Num (b64 x)" and "\<bar>b64 x - x\<bar> \<le> 2 ^ k / 2 ^ 53"
proof -
  show err: "\<bar>b64 x - x\<bar> \<le> 2 ^ k / 2 ^ 53" by (rule b64_error [OF assms(1)])
  define y where "y = b64 x"
  define c :: real where "c = 2 ^ k"
  have c0: "0 < c" by (simp add: c_def)
  have "c / 2 ^ 53 < c" using c0 by (simp add: field_simps)
  moreover have "\<bar>y - x\<bar> \<le> c / 2 ^ 53" using err by (simp only: y_def c_def)
  moreover have "\<bar>x\<bar> \<le> c" using assms(1) by (simp only: c_def)
  ultimately have "\<bar>y\<bar> < c + c" by linarith
  then have "\<bar>y\<bar> < 2 ^ (k + 1)" by (simp add: c_def)
  moreover have "(2::real) ^ (k + 1) \<le> 2 ^ 1024"
    by (rule power_increasing) (use assms(2) in simp_all)
  ultimately have "\<bar>y\<bar> < 2 ^ 1024" by linarith
  then have "\<not> 2 ^ 1024 \<le> y" "\<not> y \<le> - (2 ^ 1024)" by linarith+
  then show "fl x = Num (b64 x)"
    unfolding fl_def Let_def y_def [symmetric] by (simp only: if_False)
qed

text \<open>The decimal literals of the source, and the roundings that the examples meet.\<close>

lemma b64_7_10: "b64 (7 / 10) = 3152519739159347 / 4503599627370496"
  by (rule b64_val [where j = 53 and m = 6305039478318694]) (simp_all add: rne_def)

lemma b64_1_5: "b64 (1 / 5) = 3602879701896397 / 18014398509481984"
  by (rule b64_val [where j = 55 and m = 7205759403792794]) (simp_all add: rne_def)

lemma b64_1_10: "b64 (1 / 10) = 3602879701896397 / 36028797018963968"
  by (rule b64_val [where j = 56 and m = 7205759403792794]) (simp_all add: rne_def)

lemma b64_3_10: "b64 (3 / 10) = 5404319552844595 / 18014398509481984"
  by (rule b64_val [where j = 54 and m = 5404319552844595]) (simp_all add: rne_def)

text \<open>The markups 5 and 5.7 against the proposed markup 0.7, and the rate of one success in two rows.\<close>

lemma b64_57_10: "b64 (57 / 10) = 6417629469002957 / 1125899906842624"
  by (rule b64_val [where j = 50 and m = 6417629469002957]) (simp_all add: rne_def)

lemma b64_diff_57_7: "b64 (22517998136852481 / 4503599627370496) = 5"
  by (rule b64_val [where j = 50 and m = 5629499534213120]) (simp_all add: rne_def)

lemma b64_diff_5_7: "b64 (19365478397693133 / 4503599627370496) = 4841369599423283 / 1125899906842624"
  by (rule b64_val [where j = 50 and m = 4841369599423283]) (simp_all add: rne_def)

lemma fl_half: "fl (1 / 2) = Num (1 / 2)"
  by (rule fl_val [where j = 53 and m = 4503599627370496]) (simp_all add: rne_def)

text \<open>
  The weighted sums of the factors (100, 200, 100), (11, 26, 21), (12, 12, 7) and
  (20, 20, 20): the three products and the two sums, where they are not integers.
\<close>

lemma w_future_a: "fl (78812993478983675 / 1125899906842624) = Num 70"
  by (rule fl_val [where j = 46 and m = 4925812092436480]) (simp_all add: rne_def)

lemma w_future_b: "fl (90071992547409925 / 2251799813685248) = Num 40"
  by (rule fl_val [where j = 47 and m = 5629499534213120]) (simp_all add: rne_def)

lemma w_future_c: "fl (90071992547409925 / 9007199254740992) = Num 10"
  by (rule fl_val [where j = 49 and m = 5629499534213120]) (simp_all add: rne_def)

lemma w_id00_a: "fl (34677717130752817 / 4503599627370496) = Num (2167357320672051 / 281474976710656)"
  by (rule fl_val [where j = 50 and m = 8669429282688204]) (simp_all add: rne_def)

lemma w_id00_b: "fl (46837436124653161 / 9007199254740992) = Num (5854679515581645 / 1125899906842624)"
  by (rule fl_val [where j = 50 and m = 5854679515581645]) (simp_all add: rne_def)

lemma w_id00_ab: "fl (14524108798269849 / 1125899906842624) = Num (1815513599783731 / 140737488355328)"
  by (rule fl_val [where j = 49 and m = 7262054399134924]) (simp_all add: rne_def)

lemma w_id00_c: "fl (75660473739824337 / 36028797018963968) = Num (4728779608739021 / 2251799813685248)"
  by (rule fl_val [where j = 51 and m = 4728779608739021]) (simp_all add: rne_def)

lemma w_id00_abc: "fl (33776997205278717 / 2251799813685248) = Num (8444249301319679 / 562949953421312)"
  by (rule fl_val [where j = 49 and m = 8444249301319679]) (simp_all add: rne_def)

lemma w_id1234_a: "fl (9457559217478041 / 1125899906842624) = Num (1182194902184755 / 140737488355328)"
  by (rule fl_val [where j = 49 and m = 4728779608739020]) (simp_all add: rne_def)

lemma w_id1234_b: "fl (10808639105689191 / 4503599627370496) = Num (1351079888211149 / 562949953421312)"
  by (rule fl_val [where j = 51 and m = 5404319552844596]) (simp_all add: rne_def)

lemma w_id1234_ab: "fl (6079859496950169 / 562949953421312) = Num (6079859496950169 / 562949953421312)"
  by (rule fl_val [where j = 49 and m = 6079859496950169]) (simp_all add: rne_def)

lemma w_id1234_c: "fl (25220157913274779 / 36028797018963968) = Num (6305039478318695 / 9007199254740992)"
  by (rule fl_val [where j = 53 and m = 6305039478318695]) (simp_all add: rne_def)

lemma w_id1234_abc: "fl (103582791429521399 / 9007199254740992) = Num (6473924464345087 / 562949953421312)"
  by (rule fl_val [where j = 49 and m = 6473924464345087]) (simp_all add: rne_def)

lemma w_default_a: "fl (15762598695796735 / 1125899906842624) = Num 14"
  by (rule fl_val [where j = 49 and m = 7881299347898368]) (simp_all add: rne_def)

lemma w_default_b: "fl (18014398509481985 / 4503599627370496) = Num 4"
  by (rule fl_val [where j = 50 and m = 4503599627370496]) (simp_all add: rne_def)

lemma w_default_c: "fl (18014398509481985 / 9007199254740992) = Num 2"
  by (rule fl_val [where j = 51 and m = 4503599627370496]) (simp_all add: rne_def)

text \<open>The success rate of eleven successes in twenty rows.\<close>

lemma rate_11_20: "fl (11 / 20) = Num (2476979795053773 / 4503599627370496)"
  by (rule fl_val [where j = 53 and m = 4953959590107546]) (simp_all add: rne_def)

lemma rate_11_20_pct: "fl (61924494876344325 / 1125899906842624) = Num (7740561859543041 / 140737488355328)"
  by (rule fl_val [where j = 47 and m = 7740561859543041]) (simp_all add: rne_def)

text \<open>The blends of the pseudo-scores 44 and 64 with the success rate 100.\<close>

lemma blend_44: "fl (34677717130752817 / 1125899906842624) = Num (2167357320672051 / 70368744177664)"
  by (rule fl_val [where j = 48 and m = 8669429282688204]) (simp_all add: rne_def)

lemma blend_rate_100: "fl (135107988821114875 / 4503599627370496) = Num 30"
  by (rule fl_val [where j = 48 and m = 8444249301319680]) (simp_all add: rne_def)

lemma blend_44_100: "fl (4278419646001971 / 70368744177664) = Num (4278419646001971 / 70368744177664)"
  by (rule fl_val [where j = 47 and m = 8556839292003942]) (simp_all add: rne_def)

lemma blend_64: "fl (3152519739159347 / 70368744177664) = Num (3152519739159347 / 70368744177664)"
  by (rule fl_val [where j = 47 and m = 6305039478318694]) (simp_all add: rne_def)

lemma blend_64_100: "fl (5263582064489267 / 70368744177664) = Num (5263582064489267 / 70368744177664)"
  by (rule fl_val [where j = 46 and m = 5263582064489267]) (simp_all add: rne_def)

section \<open>Properties of the probability estimate\<close>

lemma similarMarkup_Num:
  assumes "thr < 2 ^ 1024"
  shows "similarMarkup thr (Num x) h
           \<longleftrightarrow> (\<exists>a. markup h = Some (Num a) \<and> \<bar>b64 (a - x)\<bar> \<le> thr)"
proof (cases "markup h")
  case None
  then show ?thesis by (simp add: similarMarkup_def)
next
  case (Some hm)
  then show ?thesis using assms
    by (cases hm) (auto simp: similarMarkup_def js_le_def fl_sub_def fl_def Let_def)
qed

lemma similar_filter:
  assumes "thr < 2 ^ 1024"
  shows "filter (similarMarkup thr (Num x)) history
           = filter (\<lambda>h. \<exists>a. markup h = Some (Num a) \<and> \<bar>b64 (a - x)\<bar> \<le> thr) history"
  by (rule filter_cong) (simp_all add: similarMarkup_Num [OF assms])

lemma probability_of_similar:
  assumes "PC_fetchCompleteProductCustomerHistory d customerNr productId = Inr history"
    and "filter (similarMarkup SIMILAR_MARKUP_THRESHOLD m) history = similar"
    and "similar \<noteq> []"
  shows "calculateSuccessProbability (Inr d) customerNr productId m quantity purchasePrice rate
           = Inr (successRate similar)"
proof -
  from assms(2,3) have ne: "history \<noteq> []" by auto
  show ?thesis using assms(1,3) ne
    by (simp add: calculateSuccessProbability_def calculateSuccessProbability_internal_def
        assms(2))
qed

lemma successRate_close:
  assumes "xs \<noteq> []"
  shows "\<exists>v. successRate xs = Num v
            \<and> \<bar>v - 100 * real (successCount xs) / real (length xs)\<bar> \<le> 1 / 2 ^ 45"
proof -
  define q :: real where "q = real (successCount xs) / real (length xs)"
  define y where "y = b64 q"
  define z where "z = b64 (y * 100)"
  have n: "0 < real (length xs)" using assms by simp
  have kn: "real (successCount xs) \<le> real (length xs)"
    by (simp add: successCount_def)
  have q0: "0 \<le> q" by (simp add: q_def)
  have q1: "q \<le> 1" using n kn by (simp add: q_def)
  have a: "\<bar>q\<bar> \<le> 2 ^ 0" using q0 q1 by simp
  have r1: "fl q = Num y"
    unfolding y_def by (rule fl_error(1) [OF a]) simp
  have "\<bar>b64 q - q\<bar> \<le> 2 ^ 0 / 2 ^ 53" by (rule fl_error(2) [OF a]) simp
  then have e1: "\<bar>y - q\<bar> \<le> 1 / 9007199254740992" by (simp add: y_def)
  have "\<bar>y\<bar> \<le> 128 / 100" using e1 q0 q1 by linarith
  then have "\<bar>y\<bar> * 100 \<le> 128" by linarith
  then have b: "\<bar>y * 100\<bar> \<le> 2 ^ 7" by (simp add: abs_mult)
  have r2: "fl (y * 100) = Num z"
    unfolding z_def by (rule fl_error(1) [OF b]) simp
  have "\<bar>b64 (y * 100) - y * 100\<bar> \<le> 2 ^ 7 / 2 ^ 53" by (rule fl_error(2) [OF b]) simp
  then have e2: "\<bar>z - y * 100\<bar> \<le> 1 / 70368744177664" by (simp add: z_def)
  have "successRate xs = fl_mul (fl_div (Num (real (successCount xs))) (Num (real (length xs))))
                                (Num 100)"
    by (simp only: successRate_def)
  also have "fl_div (Num (real (successCount xs))) (Num (real (length xs))) = fl q"
    using n by (simp add: q_def)
  also have "fl_mul (fl q) (Num 100) = Num z"
    by (simp only: r1 fl_mul.simps r2)
  finally have rate: "successRate xs = Num z" .
  have "\<bar>z - q * 100\<bar> \<le> 1 / 35184372088832" using e1 e2 by linarith
  moreover have "q * 100 = 100 * real (successCount xs) / real (length xs)"
    by (simp add: q_def)
  moreover have "(1::real) / 35184372088832 = 1 / 2 ^ 45" by simp
  ultimately have "\<bar>z - 100 * real (successCount xs) / real (length xs)\<bar> \<le> 1 / 2 ^ 45"
    by (simp only:)
  with rate show ?thesis by blast
qed

lemma mult_close:
  fixes a b a' b' :: real
  assumes "\<bar>a - a'\<bar> \<le> ea" and "\<bar>b - b'\<bar> \<le> eb" and "\<bar>b\<bar> \<le> mb" and "\<bar>a'\<bar> \<le> ma"
  shows "\<bar>a * b - a' * b'\<bar> \<le> ea * mb + ma * eb"
proof -
  have ea0: "0 \<le> ea" using assms(1) by linarith
  have ma0: "0 \<le> ma" using assms(4) by linarith
  have "a * b - a' * b' = (a - a') * b + a' * (b - b')" by (simp add: algebra_simps)
  then have "\<bar>a * b - a' * b'\<bar> \<le> \<bar>(a - a') * b\<bar> + \<bar>a' * (b - b')\<bar>"
    by (simp only: abs_triangle_ineq)
  also have "\<bar>(a - a') * b\<bar> = \<bar>a - a'\<bar> * \<bar>b\<bar>" by (rule abs_mult)
  also have "\<bar>a' * (b - b')\<bar> = \<bar>a'\<bar> * \<bar>b - b'\<bar>" by (rule abs_mult)
  also have "\<bar>a - a'\<bar> * \<bar>b\<bar> + \<bar>a'\<bar> * \<bar>b - b'\<bar> \<le> ea * mb + ma * eb"
    by (intro add_mono mult_mono assms ea0 ma0 abs_ge_zero)
  finally show ?thesis .
qed

lemma blend_close:
  fixes B :: int
  assumes "25 \<le> B" and "B \<le> 69" and "xs \<noteq> []"
  shows "\<exists>v. fl_add (fl_mul (Num (of_int B)) (Num (b64 0.7)))
                    (fl_mul (successRate xs) (Num (b64 0.3))) = Num v
            \<and> \<bar>v - (0.7 * of_int B
                      + 0.3 * (100 * real (successCount xs) / real (length xs)))\<bar>
                \<le> 1 / 2 ^ 43"
proof -
  define R :: real where "R = 100 * real (successCount xs) / real (length xs)"
  define b :: real where "b = of_int B"
  define c7 where "c7 = b64 (7 / 10)"
  define c3 where "c3 = b64 (3 / 10)"
  obtain z where rate: "successRate xs = Num z" and ez: "\<bar>z - R\<bar> \<le> 1 / 2 ^ 45"
    using successRate_close [OF assms(3)] unfolding R_def by blast
  have n: "0 < real (length xs)" using assms(3) by simp
  have kn: "real (successCount xs) \<le> real (length xs)" by (simp add: successCount_def)
  have R0: "0 \<le> R" by (simp add: R_def)
  have R1: "R \<le> 100" using n kn by (simp add: R_def field_simps)
  have b0: "25 \<le> b" "b \<le> 69" using assms(1,2) by (simp_all add: b_def)
  have ez': "\<bar>z - R\<bar> \<le> 1 / 35184372088832" using ez by simp
  have "\<bar>(7 / 10 :: real)\<bar> \<le> 2 ^ 0" by simp
  from b64_error [OF this] have e7: "\<bar>c7 - 7 / 10\<bar> \<le> 1 / 9007199254740992"
    by (simp add: c7_def)
  have "\<bar>(3 / 10 :: real)\<bar> \<le> 2 ^ 0" by simp
  from b64_error [OF this] have e3: "\<bar>c3 - 3 / 10\<bar> \<le> 1 / 9007199254740992"
    by (simp add: c3_def)
  define p1 where "p1 = b * c7"
  define t1 where "t1 = b64 p1"
  have g1: "\<bar>b - b\<bar> \<le> 0" by simp
  have g2: "\<bar>c7\<bar> \<le> 1" using e7 by linarith
  have g3: "\<bar>b\<bar> \<le> 69" using b0 by linarith
  have "\<bar>b * c7 - b * (7 / 10)\<bar> \<le> 0 * 1 + 69 * (1 / 9007199254740992)"
    by (rule mult_close [OF g1 e7 g2 g3])
  then have d1: "\<bar>p1 - b * (7 / 10)\<bar> \<le> 69 / 9007199254740992" by (simp add: p1_def)
  have "\<bar>p1\<bar> \<le> 64" using d1 b0 by linarith
  then have m1: "\<bar>p1\<bar> \<le> 2 ^ 6" by simp
  have r1: "fl p1 = Num t1" unfolding t1_def by (rule fl_error(1) [OF m1]) simp
  have "\<bar>b64 p1 - p1\<bar> \<le> 2 ^ 6 / 2 ^ 53" by (rule fl_error(2) [OF m1]) simp
  then have f1: "\<bar>t1 - p1\<bar> \<le> 1 / 140737488355328" by (simp add: t1_def)
  define p2 where "p2 = z * c3"
  define t2 where "t2 = b64 p2"
  have zb: "\<bar>z\<bar> \<le> 101" using ez' R0 R1 by linarith
  have c3b: "\<bar>c3\<bar> \<le> 31 / 100" using e3 by linarith
  have g4: "\<bar>R\<bar> \<le> 100" using R0 R1 by linarith
  have "\<bar>z * c3 - R * (3 / 10)\<bar>
          \<le> 1 / 35184372088832 * (31 / 100) + 100 * (1 / 9007199254740992)"
    by (rule mult_close [OF ez' e3 c3b g4])
  then have d2: "\<bar>p2 - R * (3 / 10)\<bar> \<le> 1 / 35184372088832" by (simp add: p2_def)
  have "\<bar>p2\<bar> \<le> 32" using d2 R0 R1 by linarith
  then have m2: "\<bar>p2\<bar> \<le> 2 ^ 5" by simp
  have r2: "fl p2 = Num t2" unfolding t2_def by (rule fl_error(1) [OF m2]) simp
  have "\<bar>b64 p2 - p2\<bar> \<le> 2 ^ 5 / 2 ^ 53" by (rule fl_error(2) [OF m2]) simp
  then have f2: "\<bar>t2 - p2\<bar> \<le> 1 / 281474976710656" by (simp add: t2_def)
  define v where "v = b64 (t1 + t2)"
  have "\<bar>t1 + t2\<bar> \<le> 128" using f1 f2 d1 d2 b0 R0 R1 by linarith
  then have m3: "\<bar>t1 + t2\<bar> \<le> 2 ^ 7" by simp
  have r3: "fl (t1 + t2) = Num v" unfolding v_def by (rule fl_error(1) [OF m3]) simp
  have "\<bar>b64 (t1 + t2) - (t1 + t2)\<bar> \<le> 2 ^ 7 / 2 ^ 53" by (rule fl_error(2) [OF m3]) simp
  then have f3: "\<bar>v - (t1 + t2)\<bar> \<le> 1 / 70368744177664" by (simp add: v_def)
  have val: "fl_add (fl_mul (Num (of_int B)) (Num (b64 0.7)))
                    (fl_mul (successRate xs) (Num (b64 0.3))) = Num v"
  proof -
    have "fl_mul (Num (of_int B)) (Num (b64 0.7)) = fl p1"
      by (simp add: p1_def b_def c7_def)
    moreover have "fl_mul (successRate xs) (Num (b64 0.3)) = fl p2"
      by (simp add: rate p2_def c3_def)
    ultimately show ?thesis by (simp only: r1 r2 fl_add.simps r3)
  qed
  have "\<bar>v - (b * (7 / 10) + R * (3 / 10))\<bar> \<le> 1 / 8796093022208"
    using f1 f2 f3 d1 d2 by linarith
  moreover have "b * (7 / 10) + R * (3 / 10)
                   = 0.7 * of_int B + 0.3 * (100 * real (successCount xs) / real (length xs))"
    by (simp add: b_def R_def)
  moreover have "(1::real) / 8796093022208 = 1 / 2 ^ 43" by simp
  ultimately have "\<bar>v - (0.7 * of_int B
                      + 0.3 * (100 * real (successCount xs) / real (length xs)))\<bar>
                \<le> 1 / 2 ^ 43"
    by (simp only:)
  with val show ?thesis by blast
qed

lemma fl_three_quarters: "fl (3 / 4) = Num (3 / 4)"
  by (rule fl_val [where j = 53 and m = 6755399441055744]) (simp_all add: rne_def)

text \<open>
  Claim C4. When the history of the pair holds at least one row whose markup is a number
  within 5 of the proposed markup \<open>x\<close>, the probability is 100 times the number of
  these similar rows with \<open>success = 1\<close> divided by the number of similar rows; with four
  similar rows of which three are successes it is exactly 75. The numbers are those of
  the code: the difference of the markups, the quotient and the product are binary64
  results, so that eleven successes in twenty similar rows give the binary64 number next
  above 55, and a row at 5.7 is similar to the proposed markup 0.7. The probability
  differs from the exact quotient by at most \<open>1 / 2 ^ 45\<close>.
\<close>

theorem similar_history_success_rate:
  assumes "PC_fetchCompleteProductCustomerHistory d customerNr productId = Inr history"
    and "similar = filter (\<lambda>h. \<exists>a. markup h = Some (Num a) \<and> \<bar>b64 (a - x)\<bar> \<le> 5) history"
    and "similar \<noteq> []"
  shows "calculateSuccessProbability (Inr d) customerNr productId (Num x) quantity purchasePrice rate
           = Inr (fl_mul
                    (fl_div (Num (real (length (filter (\<lambda>h. success h = Some (Num 1)) similar))))
                            (Num (real (length similar))))
                    (Num 100))
         \<and> (\<exists>v. calculateSuccessProbability (Inr d) customerNr productId (Num x)
                    quantity purchasePrice rate = Inr (Num v)
                \<and> \<bar>v - 100 * real (length (filter (\<lambda>h. success h = Some (Num 1)) similar))
                             / real (length similar)\<bar> \<le> 1 / 2 ^ 45)
         \<and> (length similar = 4 \<and> length (filter (\<lambda>h. success h = Some (Num 1)) similar) = 3
              \<longrightarrow> calculateSuccessProbability (Inr d) customerNr productId (Num x)
                     quantity purchasePrice rate = Inr (Num 75))"
proof -
  have sim: "filter (similarMarkup SIMILAR_MARKUP_THRESHOLD (Num x)) history = similar"
    unfolding assms(2) SIMILAR_MARKUP_THRESHOLD_def by (rule similar_filter) simp
  from assms(3) sim have ne: "history \<noteq> []" by auto
  have main:
    "calculateSuccessProbability (Inr d) customerNr productId (Num x) quantity purchasePrice rate
       = Inr (fl_mul
                (fl_div (Num (real (length (filter (\<lambda>h. success h = Some (Num 1)) similar))))
                        (Num (real (length similar))))
                (Num 100))"
    by (simp only: probability_of_similar [OF assms(1) sim assms(3)] successRate_def
        successCount_def)
  have close: "\<exists>v. calculateSuccessProbability (Inr d) customerNr productId (Num x)
                    quantity purchasePrice rate = Inr (Num v)
                \<and> \<bar>v - 100 * real (length (filter (\<lambda>h. success h = Some (Num 1)) similar))
                             / real (length similar)\<bar> \<le> 1 / 2 ^ 45"
    using successRate_close [OF assms(3)]
    by (simp only: probability_of_similar [OF assms(1) sim assms(3)] successCount_def sum.inject)
  have four: "calculateSuccessProbability (Inr d) customerNr productId (Num x)
                quantity purchasePrice rate = Inr (Num 75)"
    if "length similar = 4 \<and> length (filter (\<lambda>h. success h = Some (Num 1)) similar) = 3"
    using that main by (simp add: fl_three_quarters)
  show ?thesis using main close four by blast
qed

theorem similar_history_success_rate_witness:
  "calculateSuccessProbability (Inr similarPairStore) ''1001'' ''P42''
     (Num 20) (Num 1) (Num 0) (Num 1) = Inr (Num 75)
   \<and> calculateSuccessProbability (Inr twentyPairStore) ''1001'' ''P42''
       (Num 20) (Num 1) (Num 0) (Num 1) = Inr (Num (7740561859543041 / 140737488355328))
   \<and> calculateSuccessProbability (Inr roundedPairStore) ''1001'' ''P42''
       (Num (b64 0.7)) (Num 1) (Num 0) (Num 1) = Inr (Num 50)
   \<and> 5 < b64 5.7 - b64 0.7"
proof -
  let ?h = "[offer 1 18, offer 1 20, offer 0 22, offer 1 25, offer 0 40]"
  let ?s = "[offer 1 18, offer 1 20, offer 0 22, offer 1 25]"
  let ?t = "replicate 11 (offer 1 20) @ replicate 9 (offer 0 20)"
  have a1: "PC_fetchCompleteProductCustomerHistory similarPairStore ''1001'' ''P42'' = Inr ?h"
    by (simp add: similarPairStore_def)
  have a2: "?s = filter (\<lambda>h. \<exists>a. markup h = Some (Num a) \<and> \<bar>b64 (a - 20)\<bar> \<le> 5) ?h"
    by (simp add: offer_def)
  have a3: "?s \<noteq> []" by simp
  have a4: "length ?s = 4 \<and> length (filter (\<lambda>h. success h = Some (Num 1)) ?s) = 3"
    by (simp add: offer_def)
  from similar_history_success_rate [OF a1 a2 a3, of "Num 1" "Num 0" "Num 1"] a4
  have r1: "calculateSuccessProbability (Inr similarPairStore) ''1001'' ''P42''
              (Num 20) (Num 1) (Num 0) (Num 1) = Inr (Num 75)"
    by blast
  have b1: "PC_fetchCompleteProductCustomerHistory twentyPairStore ''1001'' ''P42'' = Inr ?t"
    by (simp add: twentyPairStore_def)
  have b2: "?t = filter (\<lambda>h. \<exists>a. markup h = Some (Num a) \<and> \<bar>b64 (a - 20)\<bar> \<le> 5) ?t"
    by (simp add: offer_def filter_replicate)
  have b3: "?t \<noteq> []" by simp
  have b4: "length (filter (\<lambda>h. success h = Some (Num 1)) ?t) = 11" "length ?t = 20"
    by (simp_all add: offer_def filter_replicate)
  from similar_history_success_rate [OF b1 b2 b3, of "Num 1" "Num 0" "Num 1"]
  have r2: "calculateSuccessProbability (Inr twentyPairStore) ''1001'' ''P42''
              (Num 20) (Num 1) (Num 0) (Num 1) = Inr (Num (7740561859543041 / 140737488355328))"
    by (simp only: b4) (simp add: rate_11_20 rate_11_20_pct)
  let ?u = "[offer 1 5, offer 0 (b64 5.7)]"
  have c1: "PC_fetchCompleteProductCustomerHistory roundedPairStore ''1001'' ''P42'' = Inr ?u"
    by (simp add: roundedPairStore_def)
  have s: "filter (similarMarkup 5 (Num (b64 0.7))) ?u = ?u"
    by (simp add: similarMarkup_def fl_sub_def fl_def js_le_def offer_def b64_7_10 b64_57_10
        b64_diff_57_7 b64_diff_5_7)
  have t: "filter (similarMarkup 5 (Num (b64 0.7))) ?u
             = filter (\<lambda>h. \<exists>a. markup h = Some (Num a) \<and> \<bar>b64 (a - b64 0.7)\<bar> \<le> 5) ?u"
    by (rule similar_filter) simp
  have c2: "?u = filter (\<lambda>h. \<exists>a. markup h = Some (Num a) \<and> \<bar>b64 (a - b64 0.7)\<bar> \<le> 5) ?u"
    by (rule trans [OF s [symmetric] t])
  have c3: "?u \<noteq> []" by simp
  have c4: "length (filter (\<lambda>h. success h = Some (Num 1)) ?u) = 1" "length ?u = 2"
    by (simp_all add: offer_def)
  from similar_history_success_rate [OF c1 c2 c3, of "Num 1" "Num 0" "Num 1"]
  have r3: "calculateSuccessProbability (Inr roundedPairStore) ''1001'' ''P42''
              (Num (b64 0.7)) (Num 1) (Num 0) (Num 1) = Inr (Num 50)"
    by (simp only: c4) (simp add: fl_half)
  have r4: "5 < b64 5.7 - b64 0.7" by (simp add: b64_7_10 b64_57_10)
  from r1 r2 r3 r4 show ?thesis by simp
qed

lemma below_10_tests:
  assumes "js_lt m (Num 10)"
  shows "\<not> js_gt m (Num 35)" "\<not> js_gt m (Num 25)" "js_lt m (Num 15)"
  using assms by (cases m; simp add: js_gt_def)+

lemma charCodeSum_1: "charCodeSum ''1'' = 49"
  by (simp add: charCodeSum_def)

lemma charCodeSum_2: "charCodeSum ''2'' = 50"
  by (simp add: charCodeSum_def)

lemma charCodeSum_P1: "charCodeSum ''P1'' = 129"
  by (simp add: charCodeSum_def)

lemma fallbackProbabilityOf_none:
  "fallbackProbabilityOf m productId customerNr [] []
     = Num (of_int (min 85 (max 15 (50 + (int (charCodeSum productId mod 25) - 12)
                                      + noDataMarkupShift m (charCodeSum productId)))))"
  by (simp add: fallbackProbabilityOf_def Let_def)

lemma fallbackProbabilityOf_sparse:
  assumes "productHistory @ customerHistory = combined"
    and "combined \<noteq> []"
    and "length (filter (similarMarkup 10 m) combined) < 3"
  shows "fallbackProbabilityOf m productId customerNr productHistory customerHistory
     = fl_add (fl_mul (Num (of_int (50 + (int ((charCodeSum productId + charCodeSum customerNr)
                                                 mod 20) - 10)
                                       + sparseMarkupShift m)))
                      (Num (b64 0.7)))
              (fl_mul (successRate combined) (Num (b64 0.3)))"
  unfolding fallbackProbabilityOf_def assms(1) Let_def
  using assms(2,3) by (simp add: SIMILAR_MARKUP_THRESHOLD_def)

lemma sparse_base_bounds:
  "25 \<le> 50 + (int (s mod 20) - 10) + sparseMarkupShift m"
  "50 + (int (s mod 20) - 10) + sparseMarkupShift m \<le> 69"
proof -
  have "s mod 20 < 20" by simp
  then have a: "int (s mod 20) \<le> 19" by linarith
  have b: "- 15 \<le> sparseMarkupShift m" "sparseMarkupShift m \<le> 10"
    by (simp_all add: sparseMarkupShift_def)
  show "25 \<le> 50 + (int (s mod 20) - 10) + sparseMarkupShift m" using b by linarith
  show "50 + (int (s mod 20) - 10) + sparseMarkupShift m \<le> 69" using a b by linarith
qed

lemma fallbackProbabilityOf_sparse_close:
  assumes "productHistory @ customerHistory = combined"
    and "combined \<noteq> []"
    and "length (filter (similarMarkup 10 m) combined) < 3"
  shows "\<exists>v. fallbackProbabilityOf m productId customerNr productHistory customerHistory = Num v
     \<and> \<bar>v - (0.7 * of_int (50 + (int ((charCodeSum productId + charCodeSum customerNr) mod 20)
                                      - 10)
                                + sparseMarkupShift m)
               + 0.3 * (100 * real (successCount combined) / real (length combined)))\<bar>
         \<le> 1 / 2 ^ 43"
  unfolding fallbackProbabilityOf_sparse [OF assms]
  by (rule blend_close [OF sparse_base_bounds assms(2)])

text \<open>
  Claim C10. For a proposed markup strictly below 10 both chains of markup tiers take the
  branch of \<open>markup < 15\<close>, which is tested first: the shift is \<open>5 + sum mod 5\<close> in
  the branch without history and \<open>5\<close> in the branch with fewer than three similar
  offers, and the fallback probability is computed with that shift, never with the one of
  the \<open>markup < 10\<close> branch. In the branch with fewer than three similar offers the
  probability is the binary64 blend of the pseudo-score and the success rate, which
  differs from its exact value by at most \<open>1 / 2 ^ 43\<close>.
\<close>

theorem markup_below_10_gets_below_15_shift:
  assumes "js_lt m (Num 10)"
  shows "noDataMarkupShift m s = 5 + int (s mod 5) \<and> sparseMarkupShift m = 5
    \<and> (PC_fetchCompleteProductHistory d productId = Inr []
         \<and> PC_fetchCompleteCustomerHistory d customerNr = Inr []
       \<longrightarrow> calculateFallbackProbability d m productId customerNr
           = Inr (Num (of_int (50 + (int (charCodeSum productId mod 25) - 12)
                               + (5 + int (charCodeSum productId mod 5))))))
    \<and> (PC_fetchCompleteProductHistory d productId = Inr productHistory
         \<and> PC_fetchCompleteCustomerHistory d customerNr = Inr customerHistory
         \<and> productHistory @ customerHistory \<noteq> []
         \<and> length (filter (similarMarkup 10 m) (productHistory @ customerHistory)) < 3
       \<longrightarrow> calculateFallbackProbability d m productId customerNr
           = Inr (fl_add
                    (fl_mul (Num (of_int (50 + (int ((charCodeSum productId
                                                       + charCodeSum customerNr) mod 20) - 10)
                                          + 5)))
                            (Num (b64 0.7)))
                    (fl_mul
                       (fl_mul
                          (fl_div (Num (real (length (filter (\<lambda>h. success h = Some (Num 1))
                                                        (productHistory @ customerHistory)))))
                                  (Num (real (length (productHistory @ customerHistory)))))
                          (Num 100))
                       (Num (b64 0.3))))
         \<and> (\<exists>v. calculateFallbackProbability d m productId customerNr = Inr (Num v)
               \<and> \<bar>v - (of_int (50 + (int ((charCodeSum productId + charCodeSum customerNr)
                                              mod 20) - 10)
                                    + 5) * 0.7
                         + real (length (filter (\<lambda>h. success h = Some (Num 1))
                                           (productHistory @ customerHistory)))
                           / real (length (productHistory @ customerHistory)) * 100 * 0.3)\<bar>
                   \<le> 1 / 2 ^ 43))"
proof -
  note t = below_10_tests [OF assms]
  have s1: "noDataMarkupShift m s = 5 + int (s mod 5)" for s
    using t by (simp add: noDataMarkupShift_def)
  have s2: "sparseMarkupShift m = 5"
    using t by (simp add: sparseMarkupShift_def)
  have c1: "min 85 (max 15 (50 + (int (k mod 25) - 12) + (5 + int (k mod 5))))
              = 50 + (int (k mod 25) - 12) + (5 + int (k mod 5))" for k :: nat
    by (simp add: min_def max_def)
  have none: "calculateFallbackProbability d m productId customerNr
           = Inr (Num (of_int (50 + (int (charCodeSum productId mod 25) - 12)
                               + (5 + int (charCodeSum productId mod 5)))))"
    if "PC_fetchCompleteProductHistory d productId = Inr []"
      and "PC_fetchCompleteCustomerHistory d customerNr = Inr []"
    using that
    by (simp only: calculateFallbackProbability_def fallbackProbabilityOf_none s1 c1 sum.case)
  have sparse: "calculateFallbackProbability d m productId customerNr
           = Inr (fl_add
                    (fl_mul (Num (of_int (50 + (int ((charCodeSum productId
                                                       + charCodeSum customerNr) mod 20) - 10)
                                          + 5)))
                            (Num (b64 0.7)))
                    (fl_mul
                       (fl_mul
                          (fl_div (Num (real (length (filter (\<lambda>h. success h = Some (Num 1))
                                                        (productHistory @ customerHistory)))))
                                  (Num (real (length (productHistory @ customerHistory)))))
                          (Num 100))
                       (Num (b64 0.3))))"
    if "PC_fetchCompleteProductHistory d productId = Inr productHistory"
      and "PC_fetchCompleteCustomerHistory d customerNr = Inr customerHistory"
      and "productHistory @ customerHistory \<noteq> []"
      and "length (filter (similarMarkup 10 m) (productHistory @ customerHistory)) < 3"
    using that(1,2)
    by (simp only: calculateFallbackProbability_def sum.case
        fallbackProbabilityOf_sparse [OF refl that(3,4)] s2 successRate_def successCount_def)
  have eq: "0.7 * a + 0.3 * (100 * k / n) = a * 0.7 + k / n * 100 * 0.3" for a k n :: real
    by simp
  have sparse_close:
    "\<exists>v. calculateFallbackProbability d m productId customerNr = Inr (Num v)
               \<and> \<bar>v - (of_int (50 + (int ((charCodeSum productId + charCodeSum customerNr)
                                              mod 20) - 10)
                                    + 5) * 0.7
                         + real (length (filter (\<lambda>h. success h = Some (Num 1))
                                           (productHistory @ customerHistory)))
                           / real (length (productHistory @ customerHistory)) * 100 * 0.3)\<bar>
                   \<le> 1 / 2 ^ 43"
    if "PC_fetchCompleteProductHistory d productId = Inr productHistory"
      and "PC_fetchCompleteCustomerHistory d customerNr = Inr customerHistory"
      and "productHistory @ customerHistory \<noteq> []"
      and "length (filter (similarMarkup 10 m) (productHistory @ customerHistory)) < 3"
    using fallbackProbabilityOf_sparse_close [OF refl that(3,4), of productId customerNr]
    by (simp only: calculateFallbackProbability_def sum.case that(1,2) s2 successCount_def eq
        sum.inject)
  show ?thesis using s1 s2 none sparse sparse_close by blast
qed

lemma successRate_single: "successRate [offer 1 30] = Num 100"
  by (simp add: successRate_def successCount_def offer_def)

theorem markup_below_10_gets_below_15_shift_witness:
  "js_lt (Num 8) (Num 10)
   \<and> calculateFallbackProbability noStore (Num 8) ''P1'' ''2'' = Inr (Num 51)
   \<and> calculateFallbackProbability sparseStore (Num 8) ''P1'' ''2''
       = Inr (Num (5263582064489267 / 70368744177664))"
proof -
  have h: "js_lt (Num 8) (Num 10)" by simp
  have e1: "PC_fetchCompleteProductHistory noStore ''P1'' = Inr []
            \<and> PC_fetchCompleteCustomerHistory noStore ''2'' = Inr []"
    by (simp add: noStore_def)
  have e2: "PC_fetchCompleteProductHistory sparseStore ''P1'' = Inr [offer 1 30]
            \<and> PC_fetchCompleteCustomerHistory sparseStore ''2'' = Inr []
            \<and> [offer 1 30] @ [] \<noteq> []
            \<and> length (filter (similarMarkup 10 (Num 8)) ([offer 1 30] @ [])) < 3"
    by (simp add: sparseStore_def noStore_def)
  from markup_below_10_gets_below_15_shift [OF h, of 0 noStore "''P1''" "''2''" "[]" "[]"] e1
  have r1: "calculateFallbackProbability noStore (Num 8) ''P1'' ''2'' = Inr (Num 51)"
    by (simp add: charCodeSum_P1)
  from markup_below_10_gets_below_15_shift
         [OF h, of 0 sparseStore "''P1''" "''2''" "[offer 1 30]" "[]"] e2
  have r2: "calculateFallbackProbability sparseStore (Num 8) ''P1'' ''2''
              = Inr (Num (5263582064489267 / 70368744177664))"
    by (simp add: charCodeSum_P1 charCodeSum_2 offer_def b64_7_10 b64_3_10 blend_64
        blend_rate_100 blend_64_100)
  from h r1 r2 show ?thesis by simp
qed

lemma sparseStore_fallback_40:
  "calculateFallbackProbability sparseStore (Num 40) ''1'' ''2''
     = Inr (Num (4278419646001971 / 70368744177664))"
proof -
  have q: "PC_fetchCompleteProductHistory sparseStore ''1'' = Inr [offer 1 30]"
    "PC_fetchCompleteCustomerHistory sparseStore ''2'' = Inr []"
    by (simp_all add: sparseStore_def noStore_def)
  have few: "length (filter (similarMarkup 10 (Num 40)) [offer 1 30]) < 3" by simp
  have ne: "[offer 1 30] \<noteq> []" by simp
  have app: "[offer 1 30] @ [] = [offer 1 30]" by simp
  show ?thesis
    by (simp add: calculateFallbackProbability_def q
        fallbackProbabilityOf_sparse [OF app ne few] successRate_single charCodeSum_1
        charCodeSum_2 sparseMarkupShift_def js_gt_def b64_7_10 b64_3_10 blend_44
        blend_rate_100 blend_44_100)
qed

text \<open>
  Claim C8 fails as stated: for the ids \<open>1\<close> and \<open>2\<close>, the proposed markup 40
  and a single successful offer at markup 30 the code returns the binary64 number 60.8,
  the wording of the specification gives 58, whichever character sum its \<open>sum % 5\<close> is
  taken over.
\<close>

theorem sparse_fallback_shift_counterexample:
  "calculateFallbackProbability sparseStore (Num 40) ''1'' ''2''
     = Inr (Num (4278419646001971 / 70368744177664))
   \<and> b64 60.8 = 4278419646001971 / 70368744177664
   \<and> spec_sparseFallbackProbability (charCodeSum ''1'') (Num 40) ''1'' ''2'' [offer 1 30] = Num 58
   \<and> spec_sparseFallbackProbability (charCodeSum ''1'' + charCodeSum ''2'') (Num 40) ''1'' ''2''
        [offer 1 30] = Num 58
   \<and> calculateFallbackProbability sparseStore (Num 40) ''1'' ''2''
        \<noteq> Inr (spec_sparseFallbackProbability (charCodeSum ''1'') (Num 40) ''1'' ''2''
                  [offer 1 30])
   \<and> calculateFallbackProbability sparseStore (Num 40) ''1'' ''2''
        \<noteq> Inr (spec_sparseFallbackProbability (charCodeSum ''1'' + charCodeSum ''2'') (Num 40)
                  ''1'' ''2'' [offer 1 30])"
proof -
  have v: "b64 60.8 = 4278419646001971 / 70368744177664"
    by (rule b64_val [where j = 47 and m = 8556839292003942]) (simp_all add: rne_def)
  have s: "spec_sparseFallbackProbability k (Num 40) ''1'' ''2'' [offer 1 30]
             = Num (0.7 * (44 - real (k mod 5)) + 30)" for k
    by (simp add: spec_sparseFallbackProbability_def charCodeSum_1 charCodeSum_2
        noDataMarkupShift_def js_gt_def successCount_def offer_def)
  show ?thesis
    using v by (simp add: sparseStore_fallback_40 s charCodeSum_1 charCodeSum_2)
qed

text \<open>
  Claim C8, amended. When the combined history is not empty and fewer than three of its
  rows have a markup with a binary64 difference from the proposed markup \<open>x\<close> of at
  most 10, the result is the binary64 sum of the pseudo-score times 0.7 and the success
  rate of the whole combined history times 0.3, each product rounded to binary64. The
  pseudo-score is 50, plus the combined character sums modulo 20 minus 10, plus a tier
  shift without any \<open>sum % 5\<close> term: -15 above 35, -5 above 25, +5 below 15. The success
  rate is the binary64 quotient of the successes by the rows, times 100. The result
  differs from the exact value of 0.7 times the pseudo-score plus 0.3 times the success
  rate by at most \<open>1 / 2 ^ 43\<close>.
\<close>

theorem sparse_fallback_blend:
  assumes "PC_fetchCompleteProductHistory d productId = Inr productHistory"
    and "PC_fetchCompleteCustomerHistory d customerNr = Inr customerHistory"
    and "combined = productHistory @ customerHistory"
    and "combined \<noteq> []"
    and "length (filter (\<lambda>h. \<exists>a. markup h = Some (Num a) \<and> \<bar>b64 (a - x)\<bar> \<le> 10) combined) < 3"
  shows "calculateFallbackProbability d (Num x) productId customerNr
     = Inr (fl_add
              (fl_mul (Num (50 + (real ((charCodeSum productId + charCodeSum customerNr) mod 20)
                                  - 10)
                            + (if x > 35 then - 15 else if x > 25 then - 5
                               else if x < 15 then 5 else 0)))
                      (Num (b64 0.7)))
              (fl_mul
                 (fl_mul
                    (fl_div (Num (real (length (filter (\<lambda>h. success h = Some (Num 1))
                                                  combined))))
                            (Num (real (length combined))))
                    (Num 100))
                 (Num (b64 0.3))))
   \<and> (\<exists>v. calculateFallbackProbability d (Num x) productId customerNr = Inr (Num v)
         \<and> \<bar>v - (0.7 * (50 + (real ((charCodeSum productId + charCodeSum customerNr) mod 20)
                                  - 10)
                            + (if x > 35 then - 15 else if x > 25 then - 5
                               else if x < 15 then 5 else 0))
                   + 0.3 * (100 * real (length (filter (\<lambda>h. success h = Some (Num 1))
                                                 combined))
                            / real (length combined)))\<bar>
             \<le> 1 / 2 ^ 43)"
proof -
  have sim: "filter (similarMarkup 10 (Num x)) combined
              = filter (\<lambda>h. \<exists>a. markup h = Some (Num a) \<and> \<bar>b64 (a - x)\<bar> \<le> 10) combined"
    by (rule similar_filter) simp
  have shift: "real_of_int (50 + (int ((charCodeSum productId + charCodeSum customerNr) mod 20)
                                   - 10)
                             + sparseMarkupShift (Num x))
                = 50 + (real ((charCodeSum productId + charCodeSum customerNr) mod 20) - 10)
                  + (if x > 35 then - 15 else if x > 25 then - 5 else if x < 15 then 5 else 0)"
    by (simp add: sparseMarkupShift_def js_gt_def)
  have few: "length (filter (similarMarkup 10 (Num x)) combined) < 3"
    using assms(5) by (simp only: sim)
  have call: "calculateFallbackProbability d (Num x) productId customerNr
          = Inr (fallbackProbabilityOf (Num x) productId customerNr productHistory customerHistory)"
    by (simp add: calculateFallbackProbability_def assms(1,2))
  have "fallbackProbabilityOf (Num x) productId customerNr productHistory customerHistory
     = fl_add (fl_mul (Num (of_int (50 + (int ((charCodeSum productId + charCodeSum customerNr)
                                                 mod 20) - 10)
                                       + sparseMarkupShift (Num x))))
                      (Num (b64 0.7)))
              (fl_mul (successRate combined) (Num (b64 0.3)))"
    by (rule fallbackProbabilityOf_sparse [OF assms(3) [symmetric] assms(4) few])
  then have main: "calculateFallbackProbability d (Num x) productId customerNr
     = Inr (fl_add
              (fl_mul (Num (50 + (real ((charCodeSum productId + charCodeSum customerNr) mod 20)
                                  - 10)
                            + (if x > 35 then - 15 else if x > 25 then - 5
                               else if x < 15 then 5 else 0)))
                      (Num (b64 0.7)))
              (fl_mul
                 (fl_mul
                    (fl_div (Num (real (length (filter (\<lambda>h. success h = Some (Num 1))
                                                  combined))))
                            (Num (real (length combined))))
                    (Num 100))
                 (Num (b64 0.3))))"
    by (simp only: call shift successRate_def successCount_def)
  have close: "\<exists>v. calculateFallbackProbability d (Num x) productId customerNr = Inr (Num v)
         \<and> \<bar>v - (0.7 * (50 + (real ((charCodeSum productId + charCodeSum customerNr) mod 20)
                                  - 10)
                            + (if x > 35 then - 15 else if x > 25 then - 5
                               else if x < 15 then 5 else 0))
                   + 0.3 * (100 * real (length (filter (\<lambda>h. success h = Some (Num 1))
                                                 combined))
                            / real (length combined)))\<bar>
             \<le> 1 / 2 ^ 43"
    using fallbackProbabilityOf_sparse_close [OF assms(3) [symmetric] assms(4) few,
            of productId customerNr]
    by (simp only: call shift successCount_def sum.inject)
  show ?thesis using main close by (rule conjI)
qed

theorem sparse_fallback_blend_witness:
  "calculateFallbackProbability sparseStore (Num 40) ''1'' ''2''
     = Inr (Num (4278419646001971 / 70368744177664))"
proof -
  have a1: "PC_fetchCompleteProductHistory sparseStore ''1'' = Inr [offer 1 30]"
    by (simp add: sparseStore_def)
  have a2: "PC_fetchCompleteCustomerHistory sparseStore ''2'' = Inr []"
    by (simp add: sparseStore_def noStore_def)
  have a3: "[offer 1 30] = [offer 1 30] @ []" by simp
  have a4: "[offer 1 30] \<noteq> []" by simp
  have a5: "length (filter (\<lambda>h. \<exists>a. markup h = Some (Num a) \<and> \<bar>b64 (a - 40)\<bar> \<le> 10) [offer 1 30]) < 3"
    by simp
  from sparse_fallback_blend [OF a1 a2 a3 a4 a5]
  show ?thesis
    by (simp add: charCodeSum_1 charCodeSum_2 offer_def b64_7_10 b64_3_10 blend_44
        blend_rate_100 blend_44_100)
qed

section \<open>Properties of the reliability estimate\<close>

lemma datedAges_Nil: "datedAges t [] = []"
  by (simp add: datedAges_def map_filter_simps)

lemma datedAges_Cons:
  "datedAges t (h # hs) =
     (case offer__encoding_date h of
        DateAt offerDate \<Rightarrow> (of_int (t - offerDate) / 86400000) # datedAges t hs
      | _ \<Rightarrow> datedAges t hs)"
  by (simp add: datedAges_def map_filter_simps split: encoding_date.splits)

lemma foldl_addAge:
  "foldl (addAge t) acc hs
     = (fst acc + sum_list (datedAges t hs), snd acc + length (datedAges t hs))"
proof (induction hs arbitrary: acc)
  case Nil
  then show ?case by (simp add: datedAges_Nil)
next
  case (Cons h hs)
  have step: "addAge t acc h =
      (case offer__encoding_date h of
         DateAt offerDate \<Rightarrow> (fst acc + of_int (t - offerDate) / 86400000, snd acc + 1)
       | _ \<Rightarrow> acc)"
    by (simp add: addAge_def split: encoding_date.splits)
  show ?case
    by (cases "offer__encoding_date h") (simp_all add: Cons.IH step datedAges_Cons)
qed

lemma datedAges_filter:
  "datedAges t (filter (\<lambda>h. offer__encoding_date h \<noteq> NoDate) hs) = datedAges t hs"
  by (induction hs) (auto simp: datedAges_Nil datedAges_Cons split: encoding_date.splits)

lemma filter_dated_empty:
  "filter (\<lambda>h. offer__encoding_date h \<noteq> NoDate) hs = []
     \<longleftrightarrow> (\<forall>h\<in>set hs. offer__encoding_date h = NoDate)"
  by (induction hs) auto

lemma calculateDataRecency_eq:
  "calculateDataRecency rt history =
     (if \<forall>h\<in>set history. offer__encoding_date h = NoDate then Num 0
      else if datedAges (now rt) history = [] then Num 50
      else Num (max 0 (100 - (sum_list (datedAges (now rt) history)
                               / real (length (datedAges (now rt) history))) / 365 * 100)))"
proof (cases "\<forall>h\<in>set history. offer__encoding_date h = NoDate")
  case True
  then have "filter (\<lambda>h. offer__encoding_date h \<noteq> NoDate) history = []"
    by (simp add: filter_dated_empty)
  then show ?thesis using True by (simp add: calculateDataRecency_def)
next
  case False
  then have ne: "filter (\<lambda>h. offer__encoding_date h \<noteq> NoDate) history \<noteq> []"
    by (simp add: filter_dated_empty)
  then have hne: "history \<noteq> []" by auto
  show ?thesis
    unfolding if_not_P [OF False] using ne hne
    by (simp add: calculateDataRecency_def Let_def foldl_addAge datedAges_filter
        MAX_DAYS_FOR_RECENT_DATA_def mult.commute)
qed






lemma validMarkups_Nil: "validMarkups [] = []"
  by (simp add: validMarkups_def map_filter_simps)

lemma validMarkups_Cons:
  "validMarkups (h # hs) =
     (case markup h of
        None \<Rightarrow> validMarkups hs
      | Some m \<Rightarrow> if isNaN m then validMarkups hs else m # validMarkups hs)"
  by (simp add: validMarkups_def map_filter_simps split: option.splits)

lemma charCodeSum_00: "charCodeSum ''00'' = 96"
  by (simp add: charCodeSum_def)

lemma charCodeSum_1234: "charCodeSum ''1234'' = 202"
  by (simp add: charCodeSum_def)

lemma noStore_reliability_00:
  "calculateProductReliability atEpoch (Inr noStore) ''C1'' ''00''
     = Inr \<lparr>reliability = Num 15,
            reliabilityFactors =
              \<lparr>directHistory = Num 11, dataRecency = Num 26,
               dataConsistency = Num 21, fallbacksUsed = Num 0\<rparr>\<rparr>"
  by (simp add: calculateProductReliability_def reliabilityScores_def noStore_def
      reliabilityResultOf_def charCodeSum_00 fl_sub_def b64_7_10 b64_1_5 b64_1_10
      w_id00_a w_id00_b w_id00_ab w_id00_c w_id00_abc)

lemma noStore_reliability_1234:
  "calculateProductReliability atEpoch (Inr noStore) ''C1'' ''1234''
     = Inr \<lparr>reliability = Num 11,
            reliabilityFactors =
              \<lparr>directHistory = Num 12, dataRecency = Num 12,
               dataConsistency = Num 7, fallbacksUsed = Num 0\<rparr>\<rparr>"
  by (simp add: calculateProductReliability_def reliabilityScores_def noStore_def
      reliabilityResultOf_def charCodeSum_1234 fl_sub_def b64_7_10 b64_1_5 b64_1_10
      w_id1234_a w_id1234_b w_id1234_ab w_id1234_c w_id1234_abc)

text \<open>
  Claim C6 fails as stated: the character codes of \<open>00\<close> sum to 96, not to 0, so with
  no history at all the directHistory factor of product \<open>00\<close> is 5 + 96 mod 15 = 11.
\<close>

theorem no_history_00_counterexample:
  "calculateProductReliability atEpoch (Inr noStore) ''C1'' ''00''
     = Inr \<lparr>reliability = Num 15,
            reliabilityFactors =
              \<lparr>directHistory = Num 11, dataRecency = Num 26,
               dataConsistency = Num 21, fallbacksUsed = Num 0\<rparr>\<rparr>
   \<and> directHistory (reliabilityFactors
        (projr (calculateProductReliability atEpoch (Inr noStore) ''C1'' ''00''))) \<noteq> Num 5"
  by (simp add: noStore_reliability_00)

text \<open>
  Claim C6, amended. When the histories of the pair, of the product and of the customer
  are all empty, the directHistory factor is 5 plus the sum of the character codes of
  the product id modulo 15; for the product id \<open>00\<close> that is 11.
\<close>

theorem no_history_directHistory:
  assumes "RR_fetchCompleteProductCustomerHistory d customerNr productId = Inr []"
    and "RR_fetchCompleteProductHistory d productId = Inr []"
    and "RR_fetchCompleteCustomerHistory d customerNr = Inr []"
  shows "\<exists>r. calculateProductReliability rt (Inr d) customerNr productId = Inr r
           \<and> directHistory (reliabilityFactors r) = Num (5 + real (charCodeSum productId mod 15))
           \<and> (productId = ''00'' \<longrightarrow> directHistory (reliabilityFactors r) = Num 11)"
  using assms
  by (auto simp: calculateProductReliability_def reliabilityScores_def
      reliabilityResultOf_def charCodeSum_00 Let_def)

theorem no_history_directHistory_witness:
  "\<exists>r. calculateProductReliability atEpoch (Inr noStore) ''C1'' ''00'' = Inr r
        \<and> directHistory (reliabilityFactors r) = Num 11"
proof -
  have a: "RR_fetchCompleteProductCustomerHistory noStore ''C1'' ''00'' = Inr []"
    "RR_fetchCompleteProductHistory noStore ''00'' = Inr []"
    "RR_fetchCompleteCustomerHistory noStore ''C1'' = Inr []"
    by (simp_all add: noStore_def)
  from no_history_directHistory [OF a, of atEpoch] show ?thesis by auto
qed

lemma reliabilityScores_direct:
  assumes "RR_fetchCompleteProductCustomerHistory d customerNr productId = Inr history"
    and "history \<noteq> []"
  shows "reliabilityScores rt d customerNr productId
           = Inr (Num (real (min 100 (length history * 20))),
                  toDouble (calculateDataRecency rt history),
                  calculateDataConsistency history, Num 0)"
  using assms by (simp add: reliabilityScores_def)

text \<open>
  Claim C7. The reliability score of a result is \<open>Math.round\<close> of the weighted sum
  directHistory * 0.7 + dataRecency * 0.2 + dataConsistency * 0.1 of the factors it
  reports, the products and the sums being the binary64 ones of the code; when no query
  throws, the reported factors are the computed scores and fallbacksUsed is 100 minus the
  internal fallback penalty; when the history of the pair is not empty, directHistory is
  the smaller of 100 and 20 times the number of its rows, and the penalty is 0.
\<close>

theorem reliability_score_formula:
  assumes "calculateProductReliability rt (Inr d) customerNr productId = Inr r"
  shows "reliability r =
           Math_round
             (fl_add (fl_add (fl_mul (directHistory (reliabilityFactors r)) (Num (b64 0.7)))
                             (fl_mul (dataRecency (reliabilityFactors r)) (Num (b64 0.2))))
                     (fl_mul (dataConsistency (reliabilityFactors r)) (Num (b64 0.1))))
    \<and> (\<forall>dh dr dc penalty.
          reliabilityScores rt d customerNr productId = Inr (dh, dr, dc, penalty)
          \<longrightarrow> reliabilityFactors r =
                \<lparr>directHistory = dh, dataRecency = dr, dataConsistency = dc,
                 fallbacksUsed = fl_sub (Num 100) penalty\<rparr>)
    \<and> (\<forall>history.
          RR_fetchCompleteProductCustomerHistory d customerNr productId = Inr history
          \<and> history \<noteq> []
          \<longrightarrow> reliabilityScores rt d customerNr productId
                = Inr (Num (real (min 100 (length history * 20))),
                       toDouble (calculateDataRecency rt history),
                       calculateDataConsistency history, Num 0)
              \<and> directHistory (reliabilityFactors r) = Num (real (min 100 (length history * 20)))
              \<and> fallbacksUsed (reliabilityFactors r) = Num 100)"
proof (cases "reliabilityScores rt d customerNr productId")
  case (Inl e)
  then have r: "r = defaultReliability"
    using assms by (simp add: calculateProductReliability_def)
  have none: "\<forall>history. RR_fetchCompleteProductCustomerHistory d customerNr productId = Inr history
          \<longrightarrow> history = []"
    using Inl reliabilityScores_direct [of d customerNr productId _ rt] by fastforce
  have score: "reliability r =
           Math_round
             (fl_add (fl_add (fl_mul (directHistory (reliabilityFactors r)) (Num (b64 0.7)))
                             (fl_mul (dataRecency (reliabilityFactors r)) (Num (b64 0.2))))
                     (fl_mul (dataConsistency (reliabilityFactors r)) (Num (b64 0.1))))"
    unfolding r defaultReliability_def
    by (simp add: b64_7_10 b64_1_5 b64_1_10 w_default_a w_default_b w_default_c)
  show ?thesis using Inl none score by auto
next
  case (Inr scores)
  obtain dh dr dc penalty where s: "scores = (dh, dr, dc, penalty)"
    by (cases scores) auto
  have r: "r = reliabilityResultOf (dh, dr, dc, penalty)"
    using assms Inr s by (simp add: calculateProductReliability_def)
  have direct: "(dh, dr, dc, penalty)
                 = (Num (real (min 100 (length history * 20))),
                    toDouble (calculateDataRecency rt history),
                    calculateDataConsistency history, Num 0)"
    if "RR_fetchCompleteProductCustomerHistory d customerNr productId = Inr history"
      and "history \<noteq> []" for history
    using Inr s reliabilityScores_direct [OF that, of rt] by simp
  have hundred: "fl_sub (Num 100) (Num 0) = Num 100"
    by (simp add: fl_sub_def)
  show ?thesis using Inr s direct hundred
    by (auto simp: r reliabilityResultOf_def)
qed

lemma js_add_NaN: "js_add x NaN = NaN"
  by (cases x) simp_all

lemma zeroMarkupStore_reliability:
  "calculateProductReliability atEpoch (Inr zeroMarkupStore) ''C1'' ''P1''
     = Inr \<lparr>reliability = NaN,
            reliabilityFactors =
              \<lparr>directHistory = Num 40, dataRecency = Num 0,
               dataConsistency = NaN, fallbacksUsed = Num 100\<rparr>\<rparr>"
proof -
  have h: "RR_fetchCompleteProductCustomerHistory zeroMarkupStore ''C1'' ''P1''
             = Inr [offer 1 0, offer 0 0]"
    by (simp add: zeroMarkupStore_def)
  have rec: "calculateDataRecency atEpoch [offer 1 0, offer 0 0] = Num 0"
    by (simp add: calculateDataRecency_eq offer_def)
  have con: "calculateDataConsistency [offer 1 0, offer 0 0] = NaN"
    by (simp add: calculateDataConsistency_def validMarkups_Cons validMarkups_Nil offer_def
        Math_pow2_def fl_sub_def inf_of_sign_def Math_max_def)
  show ?thesis
    by (simp add: calculateProductReliability_def reliabilityScores_direct [OF h] rec con
        reliabilityResultOf_def fl_sub_def js_add_NaN)
qed

lemma futureStore_reliability:
  "calculateProductReliability atEpoch (Inr futureStore) ''C1'' ''P1''
     = Inr \<lparr>reliability = Num 120,
            reliabilityFactors =
              \<lparr>directHistory = Num 100, dataRecency = Num 200,
               dataConsistency = Num 100, fallbacksUsed = Num 100\<rparr>\<rparr>"
proof -
  let ?o = "datedOffer 20 (DateAt 31536000000)"
  let ?h = "[?o, ?o, ?o, ?o, ?o]"
  have h: "RR_fetchCompleteProductCustomerHistory futureStore ''C1'' ''P1'' = Inr ?h"
    by (simp add: futureStore_def numeral_eq_Suc)
  have rec: "calculateDataRecency atEpoch ?h = Num 200"
    by (simp add: calculateDataRecency_eq datedAges_Cons datedAges_Nil datedOffer_def
        atEpoch_def)
  have con: "calculateDataConsistency ?h = Num 100"
    by (simp add: calculateDataConsistency_def validMarkups_Cons validMarkups_Nil
        datedOffer_def Math_pow2_def fl_sub_def Math_max_def)
  show ?thesis
    by (simp add: calculateProductReliability_def reliabilityScores_direct [OF h] rec con
        reliabilityResultOf_def fl_sub_def b64_7_10 b64_1_5 b64_1_10
        w_future_a w_future_b w_future_c)
qed

text \<open>
  Claim C3 states that every reported reliability value lies between 0 and 100. The code
  does not achieve it: with two offers of the pair at markup 0 the coefficient of
  variation is 0/0, so dataConsistency and the reliability score are NaN; with offers
  dated after the time of the call dataRecency is 200 and the score 120.
\<close>

theorem reliability_out_of_range:
  "calculateProductReliability atEpoch (Inr zeroMarkupStore) ''C1'' ''P1''
     = Inr \<lparr>reliability = NaN,
            reliabilityFactors =
              \<lparr>directHistory = Num 40, dataRecency = Num 0,
               dataConsistency = NaN, fallbacksUsed = Num 100\<rparr>\<rparr>
   \<and> calculateProductReliability atEpoch (Inr futureStore) ''C1'' ''P1''
     = Inr \<lparr>reliability = Num 120,
            reliabilityFactors =
              \<lparr>directHistory = Num 100, dataRecency = Num 200,
               dataConsistency = Num 100, fallbacksUsed = Num 100\<rparr>\<rparr>"
  by (simp add: zeroMarkupStore_reliability futureStore_reliability)

theorem reliability_score_formula_witness:
  "reliabilityFactors (projr (calculateProductReliability atEpoch (Inr futureStore) ''C1'' ''P1''))
     = \<lparr>directHistory = Num 100, dataRecency = Num 200,
        dataConsistency = Num 100, fallbacksUsed = Num 100\<rparr>
   \<and> reliability (projr (calculateProductReliability atEpoch (Inr futureStore) ''C1'' ''P1''))
     = Math_round (fl_add (fl_add (fl_mul (Num 100) (Num (b64 0.7)))
                                  (fl_mul (Num 200) (Num (b64 0.2))))
                          (fl_mul (Num 100) (Num (b64 0.1))))
   \<and> reliability (projr (calculateProductReliability atEpoch (Inr noStore) ''C1'' ''1234''))
     = Math_round (fl_add (fl_add (fl_mul (Num 12) (Num (b64 0.7)))
                                  (fl_mul (Num 12) (Num (b64 0.2))))
                          (fl_mul (Num 7) (Num (b64 0.1))))
   \<and> reliability (projr (calculateProductReliability atEpoch (Inr noStore) ''C1'' ''1234''))
     = Num 11"
proof -
  let ?o = "datedOffer 20 (DateAt 31536000000)"
  let ?h = "[?o, ?o, ?o, ?o, ?o]"
  let ?r = "\<lparr>reliability = Num 120,
            reliabilityFactors =
              \<lparr>directHistory = Num 100, dataRecency = Num 200,
               dataConsistency = Num 100, fallbacksUsed = Num 100\<rparr>\<rparr>"
  let ?q = "\<lparr>reliability = Num 11,
            reliabilityFactors =
              \<lparr>directHistory = Num 12, dataRecency = Num 12,
               dataConsistency = Num 7, fallbacksUsed = Num 0\<rparr>\<rparr>"
  have a: "calculateProductReliability atEpoch (Inr futureStore) ''C1'' ''P1'' = Inr ?r"
    by (rule futureStore_reliability)
  have b: "calculateProductReliability atEpoch (Inr noStore) ''C1'' ''1234'' = Inr ?q"
    by (rule noStore_reliability_1234)
  have h: "RR_fetchCompleteProductCustomerHistory futureStore ''C1'' ''P1'' = Inr ?h \<and> ?h \<noteq> []"
    by (simp add: futureStore_def numeral_eq_Suc)
  from reliability_score_formula [OF a] h
  have "directHistory (reliabilityFactors ?r) = Num (real (min 100 (length ?h * 20)))
        \<and> fallbacksUsed (reliabilityFactors ?r) = Num 100"
    by blast
  with reliability_score_formula [OF a] reliability_score_formula [OF b] show ?thesis
    by (simp add: a b)
qed

lemma calculateDataRecency_now:
  "now rt1 = now rt2 \<Longrightarrow> calculateDataRecency rt1 h = calculateDataRecency rt2 h"
  unfolding calculateDataRecency_def by (simp only:)

lemma reliabilityScores_two_calls:
  assumes "now rt1 = now rt2"
  shows "(\<exists>e. reliabilityScores rt1 d c p = Inl e \<and> reliabilityScores rt2 d c p = Inl e)
       \<or> (\<exists>dh dr dc f1 f2.
             reliabilityScores rt1 d c p = Inr (dh, dr, dc, f1)
           \<and> reliabilityScores rt2 d c p = Inr (dh, dr, dc, f2)
           \<and> (Math_floor (fl_mul (Num (random rt1)) (Num 10))
                = Math_floor (fl_mul (Num (random rt2)) (Num 10)) \<longrightarrow> f1 = f2))"
  by (auto simp: reliabilityScores_def Let_def calculateDataRecency_now [OF assms]
      split: sum.splits)

text \<open>
  Claim C2, amended. Two calls of the reliability estimate with the same arguments on the
  same store, made at the same time value, agree on the reliability score and on the
  directHistory, dataRecency and dataConsistency factors; they return the same result
  when moreover the integer part of ten times the random draw, as the code computes it,
  is the same.
\<close>

theorem reliability_two_calls:
  assumes "now rt1 = now rt2"
    and "calculateProductReliability rt1 getDb customerNr productId = Inr r1"
    and "calculateProductReliability rt2 getDb customerNr productId = Inr r2"
  shows "reliability r1 = reliability r2
     \<and> directHistory (reliabilityFactors r1) = directHistory (reliabilityFactors r2)
     \<and> dataRecency (reliabilityFactors r1) = dataRecency (reliabilityFactors r2)
     \<and> dataConsistency (reliabilityFactors r1) = dataConsistency (reliabilityFactors r2)
     \<and> (Math_floor (fl_mul (Num (random rt1)) (Num 10))
          = Math_floor (fl_mul (Num (random rt2)) (Num 10)) \<longrightarrow> r1 = r2)"
proof (cases getDb)
  case (Inl e)
  then show ?thesis using assms(2) by (simp add: calculateProductReliability_def)
next
  case (Inr d)
  from reliabilityScores_two_calls [OF assms(1), of d customerNr productId]
  show ?thesis
  proof (elim disjE exE conjE)
    fix e
    assume "reliabilityScores rt1 d customerNr productId = Inl e"
      and "reliabilityScores rt2 d customerNr productId = Inl e"
    then show ?thesis using assms(2,3) Inr
      by (simp add: calculateProductReliability_def)
  next
    fix dh dr dc f1 f2
    assume "reliabilityScores rt1 d customerNr productId = Inr (dh, dr, dc, f1)"
      and "reliabilityScores rt2 d customerNr productId = Inr (dh, dr, dc, f2)"
      and "Math_floor (fl_mul (Num (random rt1)) (Num 10))
             = Math_floor (fl_mul (Num (random rt2)) (Num 10)) \<longrightarrow> f1 = f2"
    then show ?thesis using assms(2,3) Inr
      by (auto simp: calculateProductReliability_def reliabilityResultOf_def)
  qed
qed

lemma customerOnly_reliability:
  "calculateProductReliability rt (Inr customerOnlyStore) ''C1'' ''P1''
     = Inr \<lparr>reliability = Num 0,
            reliabilityFactors =
              \<lparr>directHistory = Num 0, dataRecency = Num 0, dataConsistency = Num 0,
               fallbacksUsed =
                 fl_sub (Num 100)
                   (fl_sub (Num 85) (Math_floor (fl_mul (Num (random rt)) (Num 10))))\<rparr>\<rparr>"
proof -
  have rec: "calculateDataRecency rt [offer 1 20] = Num 0"
    by (simp add: calculateDataRecency_eq offer_def)
  have con: "calculateDataConsistency [offer 1 20] = Num 0"
    by (simp add: calculateDataConsistency_def)
  show ?thesis
    by (simp add: calculateProductReliability_def reliabilityScores_def customerOnlyStore_def
        noStore_def rec con reliabilityResultOf_def)
qed

lemma pairDated_reliability:
  "calculateProductReliability rt (Inr pairDatedStore) ''C1'' ''P1''
     = Inr (reliabilityResultOf
              (Num 20, fl (max 0 (100 - of_int (now rt) / 86400000 / 365 * 100)), Num 0, Num 0))"
proof -
  have h: "RR_fetchCompleteProductCustomerHistory pairDatedStore ''C1'' ''P1''
             = Inr [datedOffer 20 (DateAt 0)]"
    by (simp add: pairDatedStore_def)
  have rec: "calculateDataRecency rt [datedOffer 20 (DateAt 0)]
               = Num (max 0 (100 - of_int (now rt) / 86400000 / 365 * 100))"
    by (simp add: calculateDataRecency_eq datedAges_Cons datedAges_Nil datedOffer_def)
  have con: "calculateDataConsistency [datedOffer 20 (DateAt 0)] = Num 0"
    by (simp add: calculateDataConsistency_def)
  show ?thesis
    by (simp add: calculateProductReliability_def reliabilityScores_direct [OF h] rec con)
qed

lemma fl_5_8: "fl (5 / 8) = Num (5 / 8)"
  by (rule fl_val [where j = 53 and m = 5629499534213120]) (simp_all add: rne_def)

text \<open>
  Claim C2 fails as stated: on the same store and arguments, the result of the reliability
  estimate changes with the random draw (customer history only) and with the time of the
  call (dated history).
\<close>

theorem repeated_reliability_counterexample:
  "calculateProductReliability atEpoch (Inr customerOnlyStore) ''C1'' ''P1''
     \<noteq> calculateProductReliability drawHalf (Inr customerOnlyStore) ''C1'' ''P1''
   \<and> calculateProductReliability atEpoch (Inr pairDatedStore) ''C1'' ''P1''
     \<noteq> calculateProductReliability day73 (Inr pairDatedStore) ''C1'' ''P1''"
  by (simp add: customerOnly_reliability pairDated_reliability atEpoch_def drawHalf_def
      day73_def reliabilityResultOf_def fl_sub_def)

theorem reliability_two_calls_witness:
  "calculateProductReliability atEpoch (Inr customerOnlyStore) ''C1'' ''P1''
     = calculateProductReliability drawSmall (Inr customerOnlyStore) ''C1'' ''P1''"
proof -
  let ?r1 = "\<lparr>reliability = Num 0,
            reliabilityFactors =
              \<lparr>directHistory = Num 0, dataRecency = Num 0, dataConsistency = Num 0,
               fallbacksUsed =
                 fl_sub (Num 100)
                   (fl_sub (Num 85) (Math_floor (fl_mul (Num (random atEpoch)) (Num 10))))\<rparr>\<rparr>"
  let ?r2 = "\<lparr>reliability = Num 0,
            reliabilityFactors =
              \<lparr>directHistory = Num 0, dataRecency = Num 0, dataConsistency = Num 0,
               fallbacksUsed =
                 fl_sub (Num 100)
                   (fl_sub (Num 85) (Math_floor (fl_mul (Num (random drawSmall)) (Num 10))))\<rparr>\<rparr>"
  have n: "now atEpoch = now drawSmall" by (simp add: atEpoch_def drawSmall_def)
  have a: "calculateProductReliability atEpoch (Inr customerOnlyStore) ''C1'' ''P1'' = Inr ?r1"
    by (rule customerOnly_reliability)
  have b: "calculateProductReliability drawSmall (Inr customerOnlyStore) ''C1'' ''P1'' = Inr ?r2"
    by (rule customerOnly_reliability)
  have f: "Math_floor (fl_mul (Num (random atEpoch)) (Num 10))
             = Math_floor (fl_mul (Num (random drawSmall)) (Num 10))"
    by (simp add: atEpoch_def drawSmall_def fl_5_8)
  from reliability_two_calls [OF n a b] f have "?r1 = ?r2" by blast
  with a b show ?thesis by simp
qed

section \<open>Properties of the suggested markup\<close>





















section \<open>Failures of the store\<close>

text \<open>
  Claim C1 fails as stated: \<open>calculateSuccessProbability\<close> has no handler, and the
  exception of a query reaches its caller.
\<close>

theorem query_failure_propagates_counterexample:
  "calculateSuccessProbability (Inr brokenStore) ''C1'' ''P1'' (Num 20) (Num 1) (Num 0) (Num 1)
     = Inl (Thrown ''SQLITE_ERROR'')"
  by (simp add: calculateSuccessProbability_def calculateSuccessProbability_internal_def
      brokenStore_def)

lemma fallbackProbability_fails_iff:
  "calculateFallbackProbability d m productId customerNr = Inl e
     \<longleftrightarrow> PC_fetchCompleteProductHistory d productId = Inl e
         \<or> (\<exists>ph. PC_fetchCompleteProductHistory d productId = Inr ph
                \<and> PC_fetchCompleteCustomerHistory d customerNr = Inl e)"
  by (auto simp: calculateFallbackProbability_def split: sum.splits)

lemma probability_internal_fails_iff:
  "calculateSuccessProbability_internal d m productId customerNr quantity purchasePrice rate = Inl e
     \<longleftrightarrow> PC_fetchCompleteProductCustomerHistory d customerNr productId = Inl e
         \<or> (\<exists>h. PC_fetchCompleteProductCustomerHistory d customerNr productId = Inr h
               \<and> filter (similarMarkup SIMILAR_MARKUP_THRESHOLD m) h = []
               \<and> calculateFallbackProbability d m productId customerNr = Inl e)"
  by (auto simp: calculateSuccessProbability_internal_def Let_def split: sum.splits)

lemma clientAdjustment_fails_iff:
  "calculateClientHistoryAdjustment d customerNr = Inl e
     \<longleftrightarrow> SM_fetchCompleteCustomerHistory d customerNr = Inl e"
  by (auto simp: calculateClientHistoryAdjustment_def Let_def split: sum.splits)

lemma reliabilityScores_fails_iff:
  "reliabilityScores rt d customerNr productId = Inl e
     \<longleftrightarrow> RR_fetchCompleteProductCustomerHistory d customerNr productId = Inl e
         \<or> (RR_fetchCompleteProductCustomerHistory d customerNr productId = Inr []
             \<and> (RR_fetchCompleteProductHistory d productId = Inl e
                 \<or> (RR_fetchCompleteProductHistory d productId = Inr []
                     \<and> RR_fetchCompleteCustomerHistory d customerNr = Inl e)))"
  by (auto simp: reliabilityScores_def Let_def split: sum.splits)

lemma markupBody_fails_iff:
  "suggestedMarkupBody d customerNr productId quantity purchasePrice rate = Inl e
     \<longleftrightarrow> SM_fetchProductCustomerHistorySuccess d customerNr productId = Inl e
         \<or> (\<exists>history. SM_fetchProductCustomerHistorySuccess d customerNr productId = Inr history
               \<and> history \<noteq> []
               \<and> (calculateClientHistoryAdjustment d customerNr = Inl e
                   \<or> (\<exists>adj. calculateClientHistoryAdjustment d customerNr = Inr adj
                          \<and> calculateSuccessProbability_internal d
                               (directMarkup history adj quantity) productId customerNr
                               quantity purchasePrice rate = Inl e)))
         \<or> (SM_fetchProductCustomerHistorySuccess d customerNr productId = Inr []
             \<and> (SM_fetchGeneralProductHistorySuccess d productId = Inl e
                 \<or> (\<exists>gp. SM_fetchGeneralProductHistorySuccess d productId = Inr gp
                        \<and> (SM_fetchGeneralCustomerHistorySuccess d customerNr = Inl e
                            \<or> (\<exists>gc. SM_fetchGeneralCustomerHistorySuccess d customerNr = Inr gc
                                   \<and> calculateFallbackProbability d
                                        (fallbackMarkup gp gc quantity productId)
                                        productId customerNr = Inl e)))))"
  by (auto simp: suggestedMarkupBody_def Let_def split: sum.splits)

text \<open>
  Claim C1, amended. Once the handle of the store is obtained,
  \<open>calculateProductReliability\<close> and \<open>calculateSuggestedMarkup\<close> always return a
  result, and they return their fixed default result whenever a query that they run
  throws. For the reliability estimate the queries are that of the pair, that of the
  product after an empty history of the pair, and that of the customer after an empty
  history of the product. For the markup estimate they are its query of the pair; with
  direct history the query of the client adjustment and the queries of the probability
  calculator, that of the pair and, when no row of the pair is similar to the adjusted
  markup, those of the product and of the customer; without direct history the two
  general queries and the two queries of the fallback probability.
  \<open>calculateSuccessProbability\<close> has no handler: it ends with the exception \<open>e\<close>
  exactly when its query of the pair throws \<open>e\<close>, or no row of the pair is similar to
  the markup and the query of the product throws \<open>e\<close>, or the query of the product
  returns and that of the customer throws \<open>e\<close>.
\<close>

theorem failures_inside_try_are_caught:
  "(\<exists>r. calculateProductReliability rt (Inr d) customerNr productId = Inr r)
   \<and> (\<exists>r. calculateSuggestedMarkup (Inr d) customerNr productId quantity purchasePrice rate = Inr r)
   \<and> (RR_fetchCompleteProductCustomerHistory d customerNr productId = Inl e
       \<or> (RR_fetchCompleteProductCustomerHistory d customerNr productId = Inr []
           \<and> (RR_fetchCompleteProductHistory d productId = Inl e
               \<or> (RR_fetchCompleteProductHistory d productId = Inr []
                   \<and> RR_fetchCompleteCustomerHistory d customerNr = Inl e)))
       \<longrightarrow> calculateProductReliability rt (Inr d) customerNr productId = Inr defaultReliability)
   \<and> (SM_fetchProductCustomerHistorySuccess d customerNr productId = Inl e
       \<or> (\<exists>history. SM_fetchProductCustomerHistorySuccess d customerNr productId = Inr history
             \<and> history \<noteq> []
             \<and> (SM_fetchCompleteCustomerHistory d customerNr = Inl e
                 \<or> (\<exists>adj. calculateClientHistoryAdjustment d customerNr = Inr adj
                        \<and> (PC_fetchCompleteProductCustomerHistory d customerNr productId = Inl e
                            \<or> (\<exists>h. PC_fetchCompleteProductCustomerHistory d customerNr productId
                                      = Inr h
                                  \<and> filter (similarMarkup SIMILAR_MARKUP_THRESHOLD
                                              (directMarkup history adj quantity)) h = []
                                  \<and> (PC_fetchCompleteProductHistory d productId = Inl e
                                      \<or> (\<exists>ph. PC_fetchCompleteProductHistory d productId = Inr ph
                                             \<and> PC_fetchCompleteCustomerHistory d customerNr
                                                 = Inl e)))))))
       \<or> (SM_fetchProductCustomerHistorySuccess d customerNr productId = Inr []
           \<and> (SM_fetchGeneralProductHistorySuccess d productId = Inl e
               \<or> (\<exists>gp. SM_fetchGeneralProductHistorySuccess d productId = Inr gp
                      \<and> (SM_fetchGeneralCustomerHistorySuccess d customerNr = Inl e
                          \<or> (\<exists>gc. SM_fetchGeneralCustomerHistorySuccess d customerNr = Inr gc
                                 \<and> (PC_fetchCompleteProductHistory d productId = Inl e
                                     \<or> (\<exists>ph. PC_fetchCompleteProductHistory d productId = Inr ph
                                            \<and> PC_fetchCompleteCustomerHistory d customerNr
                                                = Inl e)))))))
       \<longrightarrow> calculateSuggestedMarkup (Inr d) customerNr productId quantity purchasePrice rate
             = Inr defaultMarkupResult)
   \<and> (calculateSuccessProbability (Inr d) customerNr productId m quantity purchasePrice rate = Inl e
       \<longleftrightarrow> PC_fetchCompleteProductCustomerHistory d customerNr productId = Inl e
           \<or> (\<exists>h. PC_fetchCompleteProductCustomerHistory d customerNr productId = Inr h
                 \<and> filter (similarMarkup SIMILAR_MARKUP_THRESHOLD m) h = []
                 \<and> (PC_fetchCompleteProductHistory d productId = Inl e
                     \<or> (\<exists>ph. PC_fetchCompleteProductHistory d productId = Inr ph
                            \<and> PC_fetchCompleteCustomerHistory d customerNr = Inl e))))"
proof -
  have c1: "\<exists>r. calculateProductReliability rt (Inr d) customerNr productId = Inr r"
    by (cases "reliabilityScores rt d customerNr productId")
       (simp_all add: calculateProductReliability_def)
  have c2: "\<exists>r. calculateSuggestedMarkup (Inr d) customerNr productId quantity purchasePrice rate
              = Inr r"
    by (cases "suggestedMarkupBody d customerNr productId quantity purchasePrice rate")
       (simp_all add: calculateSuggestedMarkup_def)
  have rel: "calculateProductReliability rt (Inr d) customerNr productId = Inr defaultReliability"
    if "reliabilityScores rt d customerNr productId = Inl e"
    using that by (simp add: calculateProductReliability_def)
  have mk: "calculateSuggestedMarkup (Inr d) customerNr productId quantity purchasePrice rate
              = Inr defaultMarkupResult"
    if "suggestedMarkupBody d customerNr productId quantity purchasePrice rate = Inl e"
    using that by (simp add: calculateSuggestedMarkup_def)
  have c3: "RR_fetchCompleteProductCustomerHistory d customerNr productId = Inl e
       \<or> (RR_fetchCompleteProductCustomerHistory d customerNr productId = Inr []
           \<and> (RR_fetchCompleteProductHistory d productId = Inl e
               \<or> (RR_fetchCompleteProductHistory d productId = Inr []
                   \<and> RR_fetchCompleteCustomerHistory d customerNr = Inl e)))
       \<longrightarrow> calculateProductReliability rt (Inr d) customerNr productId = Inr defaultReliability"
    using rel by (simp only: reliabilityScores_fails_iff) blast
  have c4: "SM_fetchProductCustomerHistorySuccess d customerNr productId = Inl e
       \<or> (\<exists>history. SM_fetchProductCustomerHistorySuccess d customerNr productId = Inr history
             \<and> history \<noteq> []
             \<and> (SM_fetchCompleteCustomerHistory d customerNr = Inl e
                 \<or> (\<exists>adj. calculateClientHistoryAdjustment d customerNr = Inr adj
                        \<and> (PC_fetchCompleteProductCustomerHistory d customerNr productId = Inl e
                            \<or> (\<exists>h. PC_fetchCompleteProductCustomerHistory d customerNr productId
                                      = Inr h
                                  \<and> filter (similarMarkup SIMILAR_MARKUP_THRESHOLD
                                              (directMarkup history adj quantity)) h = []
                                  \<and> (PC_fetchCompleteProductHistory d productId = Inl e
                                      \<or> (\<exists>ph. PC_fetchCompleteProductHistory d productId = Inr ph
                                             \<and> PC_fetchCompleteCustomerHistory d customerNr
                                                 = Inl e)))))))
       \<or> (SM_fetchProductCustomerHistorySuccess d customerNr productId = Inr []
           \<and> (SM_fetchGeneralProductHistorySuccess d productId = Inl e
               \<or> (\<exists>gp. SM_fetchGeneralProductHistorySuccess d productId = Inr gp
                      \<and> (SM_fetchGeneralCustomerHistorySuccess d customerNr = Inl e
                          \<or> (\<exists>gc. SM_fetchGeneralCustomerHistorySuccess d customerNr = Inr gc
                                 \<and> (PC_fetchCompleteProductHistory d productId = Inl e
                                     \<or> (\<exists>ph. PC_fetchCompleteProductHistory d productId = Inr ph
                                            \<and> PC_fetchCompleteCustomerHistory d customerNr
                                                = Inl e)))))))
       \<longrightarrow> calculateSuggestedMarkup (Inr d) customerNr productId quantity purchasePrice rate
             = Inr defaultMarkupResult"
    using mk
    by (simp only: markupBody_fails_iff probability_internal_fails_iff
        fallbackProbability_fails_iff clientAdjustment_fails_iff) blast
  have c5: "calculateSuccessProbability (Inr d) customerNr productId m quantity purchasePrice rate
              = Inl e
       \<longleftrightarrow> PC_fetchCompleteProductCustomerHistory d customerNr productId = Inl e
           \<or> (\<exists>h. PC_fetchCompleteProductCustomerHistory d customerNr productId = Inr h
                 \<and> filter (similarMarkup SIMILAR_MARKUP_THRESHOLD m) h = []
                 \<and> (PC_fetchCompleteProductHistory d productId = Inl e
                     \<or> (\<exists>ph. PC_fetchCompleteProductHistory d productId = Inr ph
                            \<and> PC_fetchCompleteCustomerHistory d customerNr = Inl e)))"
    by (simp add: calculateSuccessProbability_def probability_internal_fails_iff
        fallbackProbability_fails_iff)
  show ?thesis
    by (intro conjI) (rule c1 c2 c3 c4 c5)+
qed

theorem failures_inside_try_are_caught_witness:
  "calculateProductReliability atEpoch (Inr brokenStore) ''C1'' ''P1'' = Inr defaultReliability
   \<and> calculateSuggestedMarkup (Inr brokenStore) ''C1'' ''P1'' (Num 1) (Num 0) (Num 1)
       = Inr defaultMarkupResult
   \<and> calculateSuccessProbability (Inr brokenStore) ''C1'' ''P1'' (Num 20) (Num 1) (Num 0) (Num 1)
       = Inl (Thrown ''SQLITE_ERROR'')
   \<and> calculateSuggestedMarkup (Inr customerFailStore) ''C1'' ''P1'' (Num 1) (Num 0) (Num 1)
       = Inr defaultMarkupResult
   \<and> calculateSuccessProbability (Inr customerFailStore) ''C1'' ''P1''
       (Num 20) (Num 1) (Num 0) (Num 1) = Inl (Thrown ''SQLITE_BUSY'')"
proof -
  have a: "RR_fetchCompleteProductCustomerHistory brokenStore ''C1'' ''P1'' = Inl (Thrown ''SQLITE_ERROR'')"
    "SM_fetchProductCustomerHistorySuccess brokenStore ''C1'' ''P1'' = Inl (Thrown ''SQLITE_ERROR'')"
    "PC_fetchCompleteProductCustomerHistory brokenStore ''C1'' ''P1'' = Inl (Thrown ''SQLITE_ERROR'')"
    by (simp_all add: brokenStore_def)
  have b: "SM_fetchProductCustomerHistorySuccess customerFailStore ''C1'' ''P1'' = Inr []"
    "SM_fetchGeneralProductHistorySuccess customerFailStore ''P1'' = Inr []"
    "SM_fetchGeneralCustomerHistorySuccess customerFailStore ''C1'' = Inr []"
    "PC_fetchCompleteProductCustomerHistory customerFailStore ''C1'' ''P1'' = Inr []"
    "PC_fetchCompleteProductHistory customerFailStore ''P1'' = Inr []"
    "PC_fetchCompleteCustomerHistory customerFailStore ''C1'' = Inl (Thrown ''SQLITE_BUSY'')"
    by (simp_all add: customerFailStore_def noStore_def)
  note t = failures_inside_try_are_caught
         [of atEpoch brokenStore "''C1''" "''P1''" "Num 1" "Num 0" "Num 1"
             "Thrown ''SQLITE_ERROR''" "Num 20"]
  note u = failures_inside_try_are_caught
         [of atEpoch customerFailStore "''C1''" "''P1''" "Num 1" "Num 0" "Num 1"
             "Thrown ''SQLITE_BUSY''" "Num 20"]
  from t a(1) have r: "calculateProductReliability atEpoch (Inr brokenStore) ''C1'' ''P1''
                        = Inr defaultReliability"
    by blast
  from t a(2) have m: "calculateSuggestedMarkup (Inr brokenStore) ''C1'' ''P1'' (Num 1) (Num 0) (Num 1)
                        = Inr defaultMarkupResult"
    by blast
  from t a(3) have p: "calculateSuccessProbability (Inr brokenStore) ''C1'' ''P1'' (Num 20)
                         (Num 1) (Num 0) (Num 1) = Inl (Thrown ''SQLITE_ERROR'')"
    by blast
  from u b have m2: "calculateSuggestedMarkup (Inr customerFailStore) ''C1'' ''P1''
                       (Num 1) (Num 0) (Num 1) = Inr defaultMarkupResult"
    by blast
  have f: "filter (similarMarkup SIMILAR_MARKUP_THRESHOLD (Num 20)) [] = []" by simp
  from u b(4,5,6) f have p2: "calculateSuccessProbability (Inr customerFailStore) ''C1'' ''P1''
                         (Num 20) (Num 1) (Num 0) (Num 1) = Inl (Thrown ''SQLITE_BUSY'')"
    by blast
  from r m p m2 p2 show ?thesis by simp
qed

end
